theory Spec2Isabelle
  imports Main
begin

section \<open>Values shared by all components\<close>

text \<open>
  JSON values as the program handles them after \<^verbatim>\<open>JSON.parse\<close>. Numbers are integers
  here; an object keeps its keys in insertion order, as a JavaScript object does.
\<close>

datatype json =
    JNull
  | JBool bool
  | JNum int
  | JStr string
  | JArr "json list"
  | JObj "(string \<times> json) list"

text \<open>Property access \<^verbatim>\<open>value?.key\<close>: \<open>None\<close> stands for \<^verbatim>\<open>undefined\<close>.\<close>

fun json_get :: "json \<Rightarrow> string \<Rightarrow> json option" where
  "json_get (JObj kvs) k = map_of kvs k"
| "json_get _ k = None"

text \<open>JavaScript truthiness of a parsed JSON value.\<close>

fun truthy :: "json \<Rightarrow> bool" where
  "truthy JNull = False"
| "truthy (JBool b) = b"
| "truthy (JNum n) = (n \<noteq> 0)"
| "truthy (JStr s) = (s \<noteq> [])"
| "truthy (JArr _) = True"
| "truthy (JObj _) = True"

text \<open>Decimal rendering of numbers, as template strings and \<^verbatim>\<open>String(n)\<close> produce it.\<close>

definition digit_char :: "nat \<Rightarrow> char" where
  "digit_char d = char_of (48 + d)"

function string_of_nat :: "nat \<Rightarrow> string" where
  "string_of_nat n =
     (if n < 10 then [digit_char n] else string_of_nat (n div 10) @ [digit_char (n mod 10)])"
  by pat_completeness auto
termination
  by (relation "measure id") auto

definition string_of_int :: "int \<Rightarrow> string" where
  "string_of_int i = (if i < 0 then CHR ''-'' # string_of_nat (nat (- i)) else string_of_nat (nat i))"

fun join_with :: "string \<Rightarrow> string list \<Rightarrow> string" where
  "join_with sep [] = []"
| "join_with sep [s] = s"
| "join_with sep (s # t # ts) = s @ sep @ join_with sep (t # ts)"

text \<open>\<^verbatim>\<open>String(value)\<close>, which the \<^verbatim>\<open>Error\<close> constructor applies to its message.\<close>

fun js_String :: "json \<Rightarrow> string" where
  "js_String JNull = ''null''"
| "js_String (JBool b) = (if b then ''true'' else ''false'')"
| "js_String (JNum n) = string_of_int n"
| "js_String (JStr s) = s"
| "js_String (JArr xs) =
     join_with '','' (map (\<lambda>x. case x of JNull \<Rightarrow> [] | _ \<Rightarrow> js_String x) xs)"
| "js_String (JObj _) = ''[object Object]''"


section \<open>Error taxonomy (errors.ts)\<close>

datatype ErrorCode =
    INVALID_ARGUMENT
  | MISSING_ARGUMENT
  | RESOURCE_NOT_FOUND
  | ALREADY_EXISTS
  | PERMISSION_DENIED
  | AUTH_FAILED
  | RATE_LIMITED
  | TIMEOUT
  | CONFLICT
  | PRECONDITION_FAILED
  | CONFIRMATION_REQUIRED
  | IDEMPOTENCY_KEY_CONFLICT
  | UNSUPPORTED_SCHEMA_VERSION
  | INTERNAL_ERROR
  | DEPENDENCY_MISSING
  | CONFIG_ERROR
  | UNSUPPORTED_OPERATION

text \<open>The code as the string it is in the program.\<close>

fun code_name :: "ErrorCode \<Rightarrow> string" where
  "code_name INVALID_ARGUMENT = ''INVALID_ARGUMENT''"
| "code_name MISSING_ARGUMENT = ''MISSING_ARGUMENT''"
| "code_name RESOURCE_NOT_FOUND = ''RESOURCE_NOT_FOUND''"
| "code_name ALREADY_EXISTS = ''ALREADY_EXISTS''"
| "code_name PERMISSION_DENIED = ''PERMISSION_DENIED''"
| "code_name AUTH_FAILED = ''AUTH_FAILED''"
| "code_name RATE_LIMITED = ''RATE_LIMITED''"
| "code_name TIMEOUT = ''TIMEOUT''"
| "code_name CONFLICT = ''CONFLICT''"
| "code_name PRECONDITION_FAILED = ''PRECONDITION_FAILED''"
| "code_name CONFIRMATION_REQUIRED = ''CONFIRMATION_REQUIRED''"
| "code_name IDEMPOTENCY_KEY_CONFLICT = ''IDEMPOTENCY_KEY_CONFLICT''"
| "code_name UNSUPPORTED_SCHEMA_VERSION = ''UNSUPPORTED_SCHEMA_VERSION''"
| "code_name INTERNAL_ERROR = ''INTERNAL_ERROR''"
| "code_name DEPENDENCY_MISSING = ''DEPENDENCY_MISSING''"
| "code_name CONFIG_ERROR = ''CONFIG_ERROR''"
| "code_name UNSUPPORTED_OPERATION = ''UNSUPPORTED_OPERATION''"

text \<open>The table \<^verbatim>\<open>EXIT_CODES\<close>; its keys are the error codes, \<^verbatim>\<open>PARTIAL\<close> and \<^verbatim>\<open>SUCCESS\<close>.\<close>

datatype exit_key = SUCCESS | PARTIAL | OfError ErrorCode

fun EXIT_CODES :: "exit_key \<Rightarrow> int" where
  "EXIT_CODES SUCCESS = 0"
| "EXIT_CODES PARTIAL = 3"
| "EXIT_CODES (OfError INVALID_ARGUMENT) = 2"
| "EXIT_CODES (OfError MISSING_ARGUMENT) = 2"
| "EXIT_CODES (OfError RESOURCE_NOT_FOUND) = 4"
| "EXIT_CODES (OfError ALREADY_EXISTS) = 1"
| "EXIT_CODES (OfError PERMISSION_DENIED) = 11"
| "EXIT_CODES (OfError AUTH_FAILED) = 10"
| "EXIT_CODES (OfError RATE_LIMITED) = 12"
| "EXIT_CODES (OfError TIMEOUT) = 20"
| "EXIT_CODES (OfError CONFLICT) = 5"
| "EXIT_CODES (OfError PRECONDITION_FAILED) = 1"
| "EXIT_CODES (OfError CONFIRMATION_REQUIRED) = 1"
| "EXIT_CODES (OfError IDEMPOTENCY_KEY_CONFLICT) = 1"
| "EXIT_CODES (OfError UNSUPPORTED_SCHEMA_VERSION) = 1"
| "EXIT_CODES (OfError INTERNAL_ERROR) = 125"
| "EXIT_CODES (OfError DEPENDENCY_MISSING) = 30"
| "EXIT_CODES (OfError CONFIG_ERROR) = 1"
| "EXIT_CODES (OfError UNSUPPORTED_OPERATION) = 1"

text \<open>
  The class \<^verbatim>\<open>CliError\<close>. Its constructor defaults \<^verbatim>\<open>recoverable\<close> to false and leaves
  \<^verbatim>\<open>suggestedAction\<close> and \<^verbatim>\<open>context\<close> undefined (\<open>None\<close>) when no options are given.
\<close>

record CliError =
  code :: ErrorCode
  message :: string
  recoverable :: bool
  suggestedAction :: "string option"
  "context" :: "json option"

definition new_CliError ::
  "ErrorCode \<Rightarrow> string \<Rightarrow> bool option \<Rightarrow> string option \<Rightarrow> json option \<Rightarrow> CliError" where
  "new_CliError c m r a ctx =
     \<lparr>code = c, message = m,
      recoverable = (case r of None \<Rightarrow> False | Some b \<Rightarrow> b),
      suggestedAction = a, context = ctx\<rparr>"

text \<open>
  What a \<^verbatim>\<open>throw\<close> can carry: a \<^verbatim>\<open>CliError\<close>, another \<^verbatim>\<open>Error\<close> (its name and message),
  or a value that is no \<^verbatim>\<open>Error\<close> at all.
\<close>

datatype thrown =
    Cli CliError
  | JsError string string
  | NonError

fun mapHttpStatusToError :: "int \<Rightarrow> ErrorCode" where
  "mapHttpStatusToError status =
     (if status = 400 then INVALID_ARGUMENT
      else if status = 401 then AUTH_FAILED
      else if status = 403 then PERMISSION_DENIED
      else if status = 404 then RESOURCE_NOT_FOUND
      else if status = 409 then CONFLICT
      else if status = 412 then PRECONDITION_FAILED
      else if status = 429 then RATE_LIMITED
      else if status = 408 then TIMEOUT
      else if status \<ge> 500 then INTERNAL_ERROR
      else INTERNAL_ERROR)"


section \<open>Strings: percent-decoding, lower-casing, substring test\<close>

text \<open>
  A JavaScript string is represented by its UTF-8 bytes. \<^verbatim>\<open>String.prototype.includes\<close>
  is the search for a contiguous substring.
\<close>

fun startsWith :: "string \<Rightarrow> string \<Rightarrow> bool" where
  "startsWith s [] = True"
| "startsWith [] (d # ds) = False"
| "startsWith (c # cs) (d # ds) = (c = d \<and> startsWith cs ds)"

fun js_includes :: "string \<Rightarrow> string \<Rightarrow> bool" where
  "js_includes [] sub = (sub = [])"
| "js_includes (c # cs) sub = (startsWith (c # cs) sub \<or> js_includes cs sub)"

text \<open>
  \<^verbatim>\<open>toLowerCase\<close> folds the ASCII letters; every other byte is kept. (Unicode lower-casing
  of a non-ASCII character never produces one of the characters \<^verbatim>\<open>.\<close>, \<^verbatim>\<open>%\<close>, \<^verbatim>\<open>2\<close>, \<^verbatim>\<open>e\<close> that
  the path check looks for.)
\<close>

definition lower_char :: "char \<Rightarrow> char" where
  "lower_char c =
     (let n = (of_char c :: nat) in
      if 65 \<le> n \<and> n \<le> 90 then char_of (n + 32) else c)"

definition toLowerCase :: "string \<Rightarrow> string" where
  "toLowerCase s = map lower_char s"

definition hexval :: "char \<Rightarrow> nat option" where
  "hexval c =
     (let n = (of_char c :: nat) in
      if 48 \<le> n \<and> n \<le> 57 then Some (n - 48)
      else if 97 \<le> n \<and> n \<le> 102 then Some (n - 87)
      else if 65 \<le> n \<and> n \<le> 70 then Some (n - 55)
      else None)"

text \<open>One escape \<^verbatim>\<open>%XY\<close> at the head of the string: its octet and the rest.\<close>

fun pct_octet :: "string \<Rightarrow> (nat \<times> string) option" where
  "pct_octet (p # h # l # rest) =
     (if p = CHR ''%'' then
        (case hexval h of
           None \<Rightarrow> None
         | Some a \<Rightarrow> (case hexval l of None \<Rightarrow> None | Some b \<Rightarrow> Some (16 * a + b, rest)))
      else None)"
| "pct_octet _ = None"

text \<open>The \<open>k\<close> escapes that must follow the first octet of a multi-byte sequence.\<close>

fun pct_octets :: "nat \<Rightarrow> string \<Rightarrow> (nat list \<times> string) option" where
  "pct_octets 0 s = Some ([], s)"
| "pct_octets (Suc k) s =
     (case pct_octet s of
        None \<Rightarrow> None
      | Some (b, rest) \<Rightarrow>
          (case pct_octets k rest of
             None \<Rightarrow> None
           | Some (bs, rest') \<Rightarrow> Some (b # bs, rest')))"

text \<open>Number of leading one bits of an octet that is at least 128.\<close>

definition utf8_len :: "nat \<Rightarrow> nat" where
  "utf8_len b =
     (if b < 192 then 1 else if b < 224 then 2 else if b < 240 then 3
      else if b < 248 then 4 else 5)"

definition cont :: "nat \<Rightarrow> bool" where
  "cont b = (128 \<le> b \<and> b \<le> 191)"

text \<open>Well-formed UTF-8 encodings of one code point (no overlong forms, no surrogates).\<close>

fun valid_utf8 :: "nat list \<Rightarrow> bool" where
  "valid_utf8 [a, b] = (194 \<le> a \<and> a \<le> 223 \<and> cont b)"
| "valid_utf8 [a, b, c] =
     (cont c \<and>
      ((a = 224 \<and> 160 \<le> b \<and> b \<le> 191) \<or>
       (225 \<le> a \<and> a \<le> 236 \<and> cont b) \<or>
       (a = 237 \<and> 128 \<le> b \<and> b \<le> 159) \<or>
       (238 \<le> a \<and> a \<le> 239 \<and> cont b)))"
| "valid_utf8 [a, b, c, d] =
     (cont c \<and> cont d \<and>
      ((a = 240 \<and> 144 \<le> b \<and> b \<le> 191) \<or>
       (241 \<le> a \<and> a \<le> 243 \<and> cont b) \<or>
       (a = 244 \<and> 128 \<le> b \<and> b \<le> 143)))"
| "valid_utf8 _ = False"

definition URIError :: thrown where
  "URIError = JsError ''URIError'' ''URI malformed''"

lemma pct_octet_shorter: "pct_octet s = Some (b, rest) \<Longrightarrow> length rest < length s"
  by (induction s rule: pct_octet.induct) (auto split: if_splits option.splits)

lemma pct_octets_shorter: "pct_octets k s = Some (bs, rest) \<Longrightarrow> length rest \<le> length s"
proof (induction k arbitrary: s bs rest)
  case 0
  then show ?case by simp
next
  case (Suc k)
  then show ?case
    by (fastforce split: option.splits dest: pct_octet_shorter)
qed

text \<open>
  \<^verbatim>\<open>decodeURIComponent\<close> (ECMAScript \<^verbatim>\<open>Decode\<close> with an empty reserved set): a character
  other than \<^verbatim>\<open>%\<close> is copied; \<^verbatim>\<open>%\<close> must be followed by two hex digits; an octet below
  128 is the character itself; a larger one starts a UTF-8 sequence whose remaining octets
  must be escapes too. Anything else throws \<^verbatim>\<open>URIError\<close>.
\<close>

function decodeURIComponent :: "string \<Rightarrow> thrown + string" where
  "decodeURIComponent [] = Inr []"
| "decodeURIComponent (c # cs) =
     (if c \<noteq> CHR ''%'' then
        (case decodeURIComponent cs of Inl e \<Rightarrow> Inl e | Inr d \<Rightarrow> Inr (c # d))
      else
        (case pct_octet (c # cs) of
           None \<Rightarrow> Inl URIError
         | Some (b, rest) \<Rightarrow>
             if b < 128 then
               (case decodeURIComponent rest of Inl e \<Rightarrow> Inl e | Inr d \<Rightarrow> Inr (char_of b # d))
             else if utf8_len b = 1 \<or> utf8_len b > 4 then Inl URIError
             else
               (case pct_octets (utf8_len b - 1) rest of
                  None \<Rightarrow> Inl URIError
                | Some (bs, rest') \<Rightarrow>
                    if valid_utf8 (b # bs) then
                      (case decodeURIComponent rest' of
                         Inl e \<Rightarrow> Inl e
                       | Inr d \<Rightarrow> Inr (map char_of (b # bs) @ d))
                    else Inl URIError)))"
  by pat_completeness auto
termination
proof (relation "measure length", goal_cases)
  case 1
  show ?case by simp
next
  case (2 c cs)
  then show ?case by simp
next
  case (3 c cs x b rest)
  then show ?case using pct_octet_shorter[of "c # cs" b rest] by simp
next
  case (4 c cs x b rest y bs rest')
  then show ?case
    using pct_octet_shorter[of "c # cs" b rest] pct_octets_shorter[of "utf8_len b - 1" rest bs rest']
    by simp
qed


section \<open>HTTP request engine (http.ts)\<close>

text \<open>
  The request body is JSON or a multipart form. The fields of \<^verbatim>\<open>HttpResponse\<close> carry the
  prefix \<open>resp_\<close>; of the headers only \<^verbatim>\<open>retry-after\<close> is read.
\<close>

datatype request_body = JsonBody json | FormData

record RequestOptions =
  "method" :: string
  path :: string
  query :: "(string \<times> json) list option"
  body :: "request_body option"
  token :: "string option"
  notionVersion :: string
  timeoutMs :: int
  retries :: int
  idempotencyKey :: "string option"
  contentType :: "string option"
  extraHeaders :: "(string \<times> string) list option"

record HttpResponse =
  resp_status :: int
  resp_data :: json
  resp_retry_after :: "string option"

text \<open>
  What one physical attempt (\<^verbatim>\<open>fetch\<close> under the abort timer, then the parse of the body)
  can do: answer, be aborted by the timer, or fail with some other error. The URL and the
  \<^verbatim>\<open>RequestInit\<close> are computed from the options alone, so the upstream is a function of
  the options and of the number of attempts made before.
\<close>

datatype fetch_outcome =
    Response HttpResponse
  | Abort
  | Fail string string

type_synonym upstream = "RequestOptions \<Rightarrow> nat \<Rightarrow> fetch_outcome"

text \<open>
  The observable effects of the engine: the number of physical attempts and the back-off
  waits, in order. A wait is the fixed 1000 ms or the \<^verbatim>\<open>retry-after\<close> header taken as
  seconds.
\<close>

datatype delay = Millis int | RetryAfterSeconds string

record net =
  calls :: nat
  sleeps :: "delay list"

definition validatePath :: "string \<Rightarrow> thrown option" where
  "validatePath pathValue =
     (case decodeURIComponent pathValue of
        Inl e \<Rightarrow> Some e
      | Inr decoded \<Rightarrow>
          (let lowered = toLowerCase decoded in
           if js_includes lowered ''..'' \<or> js_includes lowered ''%2e'' then
             Some (Cli (new_CliError INVALID_ARGUMENT ''Path traversal is not allowed''
               (Some True) (Some ''Provide a safe API path'')
               (Some (JObj [(''path'', JStr pathValue)]))))
           else None))"

definition doFetch :: "upstream \<Rightarrow> RequestOptions \<Rightarrow> net \<Rightarrow> (thrown + HttpResponse) \<times> net" where
  "doFetch up opts st =
     (let st' = st\<lparr>calls := Suc (calls st)\<rparr> in
      case up opts (calls st) of
        Response r \<Rightarrow> (Inr r, st')
      | Abort \<Rightarrow>
          (Inl (Cli (new_CliError TIMEOUT
             (''Request timed out after '' @ string_of_int (timeoutMs opts) @ ''ms'')
             (Some True) (Some ''Retry with a higher --timeout value'')
             (Some (JObj [(''timeout_ms'', JNum (timeoutMs opts))])))), st')
      | Fail name msg \<Rightarrow> (Inl (JsError name msg), st'))"

text \<open>The error built from a response that is not 2xx.\<close>

definition response_error :: "HttpResponse \<Rightarrow> CliError" where
  "response_error response =
     (let notionCode = json_get (resp_data response) ''code'';
          msg = (case json_get (resp_data response) ''message'' of
                   None \<Rightarrow> ''Request failed with '' @ string_of_int (resp_status response)
                 | Some m \<Rightarrow>
                     if truthy m then js_String m
                     else ''Request failed with '' @ string_of_int (resp_status response));
          mapped = mapHttpStatusToError (resp_status response)
      in new_CliError mapped msg
           (Some (resp_status response = 429 \<or> resp_status response \<ge> 500))
           (if resp_status response = 429 then Some ''Retry after the Retry-After interval''
            else None)
           (Some (JObj ((''status'', JNum (resp_status response)) #
              (case notionCode of None \<Rightarrow> [] | Some c \<Rightarrow> [(''notion_code'', c)])))))"

definition retry_delay :: "HttpResponse \<Rightarrow> delay" where
  "retry_delay response =
     (case resp_retry_after response of
        None \<Rightarrow> Millis 1000
      | Some h \<Rightarrow> if h = [] then Millis 1000 else RetryAfterSeconds h)"

text \<open>
  One pass through the body of the \<^verbatim>\<open>while\<close> loop, \<open>attempt\<close> being the counter after its
  increment. The pass returns the response, throws, or goes round again (\<^verbatim>\<open>continue\<close>,
  or falling out of the \<^verbatim>\<open>catch\<close> block) with the new \<^verbatim>\<open>lastError\<close>, or leaves the
  loop by \<^verbatim>\<open>break\<close>.
\<close>

datatype ctl =
    Return HttpResponse
  | Throw thrown
  | Continue "thrown option"
  | Break "thrown option"

definition catch_block :: "RequestOptions \<Rightarrow> int \<Rightarrow> thrown \<Rightarrow> ctl" where
  "catch_block opts attempt error =
     (case error of
        Cli e \<Rightarrow>
          if code e = TIMEOUT \<and> attempt \<le> retries opts then Continue (Some error)
          else Throw error
      | _ \<Rightarrow>
          if attempt > retries opts then Break (Some error) else Continue (Some error))"

definition attempt_body ::
  "upstream \<Rightarrow> RequestOptions \<Rightarrow> int \<Rightarrow> thrown option \<Rightarrow> net \<Rightarrow> ctl \<times> net" where
  "attempt_body up opts attempt lastError st =
     (case doFetch up opts st of
        (Inl error, st1) \<Rightarrow> (catch_block opts attempt error, st1)
      | (Inr response, st1) \<Rightarrow>
          if resp_status response \<ge> 200 \<and> resp_status response < 300 then (Return response, st1)
          else if resp_status response = 429 \<and> attempt \<le> retries opts then
            (Continue lastError, st1\<lparr>sleeps := sleeps st1 @ [retry_delay response]\<rparr>)
          else (catch_block opts attempt (Cli (response_error response)), st1))"

definition after_loop :: "thrown option \<Rightarrow> thrown" where
  "after_loop lastError =
     (case lastError of
        Some (Cli e) \<Rightarrow> Cli e
      | Some (JsError name msg) \<Rightarrow> JsError name msg
      | _ \<Rightarrow> Cli (new_CliError INTERNAL_ERROR ''Request failed'' (Some False) None None))"

function request_loop ::
  "upstream \<Rightarrow> RequestOptions \<Rightarrow> int \<Rightarrow> thrown option \<Rightarrow> net \<Rightarrow> (thrown + HttpResponse) \<times> net" where
  "request_loop up opts attempt lastError st =
     (if attempt \<le> retries opts then
        (case attempt_body up opts (attempt + 1) lastError st of
           (Return response, st') \<Rightarrow> (Inr response, st')
         | (Throw error, st') \<Rightarrow> (Inl error, st')
         | (Continue lastError', st') \<Rightarrow> request_loop up opts (attempt + 1) lastError' st'
         | (Break lastError', st') \<Rightarrow> (Inl (after_loop lastError'), st'))
      else (Inl (after_loop lastError), st))"
  by pat_completeness auto
termination
  by (relation "measure (\<lambda>(up, opts, attempt, lastError, st). nat (retries opts + 1 - attempt))")
    auto

definition request :: "upstream \<Rightarrow> RequestOptions \<Rightarrow> net \<Rightarrow> (thrown + HttpResponse) \<times> net" where
  "request up opts st =
     (case validatePath (path opts) of
        Some error \<Rightarrow> (Inl error, st)
      | None \<Rightarrow> request_loop up opts 0 None st)"


section \<open>Pagination engine (pagination.ts)\<close>

record 'a PaginatedResponse =
  results :: "'a list"
  has_more :: bool
  next_cursor :: "string option"

text \<open>
  A line of streamed output: \<^verbatim>\<open>{"type":"item","data":...}\<close> or
  \<^verbatim>\<open>{"type":"summary","data":{"count":n}}\<close>.
\<close>

datatype 'a ndjson = Item 'a | Summary nat

text \<open>What \<^verbatim>\<open>paginateAll\<close> returns: \<^verbatim>\<open>null\<close>, or \<^verbatim>\<open>{ results, total }\<close>.\<close>

datatype 'a paginated = Null | Collected "'a list" nat

text \<open>
  The page-fetch function is called with a cursor; it may throw, and it may answer
  differently from call to call, so it carries a state of its own.
\<close>

type_synonym ('s, 'a) fetchPage =
  "string option \<Rightarrow> 's \<Rightarrow> (thrown + 'a PaginatedResponse) \<times> 's"

text \<open>\<^verbatim>\<open>!page.next_cursor\<close>: the cursor is null, absent or the empty string.\<close>

definition no_cursor :: "string option \<Rightarrow> bool" where
  "no_cursor c = (case c of None \<Rightarrow> True | Some v \<Rightarrow> v = [])"

text \<open>The exit test of the loop, \<^verbatim>\<open>!page.has_more || !page.next_cursor\<close>.\<close>

definition is_last :: "'a PaginatedResponse \<Rightarrow> bool" where
  "is_last page = (\<not> has_more page \<or> no_cursor (next_cursor page))"

text \<open>The variables \<^verbatim>\<open>total\<close> and \<^verbatim>\<open>all\<close> of the loop, and the lines written so far.\<close>

record 'a pagination =
  total :: nat
  all_items :: "'a list"
  written :: "'a ndjson list"

definition take_page :: "bool \<Rightarrow> 'a PaginatedResponse \<Rightarrow> 'a pagination \<Rightarrow> 'a pagination" where
  "take_page ndjson page acc =
     (if ndjson then
        acc\<lparr>total := total acc + length (results page),
            written := written acc @ map Item (results page)\<rparr>
      else
        acc\<lparr>all_items := all_items acc @ results page,
            total := length (all_items acc @ results page)\<rparr>)"

text \<open>
  The \<^verbatim>\<open>while (true)\<close> loop. It need not end, so its value is an option: \<open>None\<close> when
  the loop runs forever. A finished run gives the error thrown by the fetch function, if
  any, the loop variables and the state of the fetch function.
\<close>

partial_function (option) paginate_loop ::
  "('s, 'a) fetchPage \<Rightarrow> bool \<Rightarrow> string option \<Rightarrow> 'a pagination \<Rightarrow> 's \<Rightarrow>
     (thrown option \<times> 'a pagination \<times> 's) option" where
  "paginate_loop fetchPage ndjson cursor acc s =
     (case fetchPage cursor s of
        (Inl error, s') \<Rightarrow> Some (Some error, acc, s')
      | (Inr page, s') \<Rightarrow>
          if is_last page then Some (None, take_page ndjson page acc, s')
          else paginate_loop fetchPage ndjson (next_cursor page) (take_page ndjson page acc) s')"

text \<open>
  \<^verbatim>\<open>paginateAll\<close>: the result (an error or the returned value), the lines written to the
  primary channel after \<open>out\<close>, and the state of the fetch function.
\<close>

definition paginateAll ::
  "('s, 'a) fetchPage \<Rightarrow> bool \<Rightarrow> 's \<Rightarrow> 'a ndjson list \<Rightarrow>
     ((thrown + 'a paginated) \<times> 'a ndjson list \<times> 's) option" where
  "paginateAll fetchPage ndjson s out =
     (case paginate_loop fetchPage ndjson None \<lparr>total = 0, all_items = [], written = out\<rparr> s of
        None \<Rightarrow> None
      | Some (Some error, acc, s') \<Rightarrow> Some (Inl error, written acc, s')
      | Some (None, acc, s') \<Rightarrow>
          if ndjson then Some (Inr Null, written acc @ [Summary (total acc)], s')
          else Some (Inr (Collected (all_items acc) (total acc)), written acc, s'))"

text \<open>
  The pages a fetch function hands out when the cursors are followed from \<open>cursor\<close>, up
  to and including the first page that passes the exit test, provided that page is among
  the first \<open>n\<close> and no call before it throws.
\<close>

fun fetched_pages ::
  "nat \<Rightarrow> ('s, 'a) fetchPage \<Rightarrow> string option \<Rightarrow> 's \<Rightarrow> ('a PaginatedResponse list \<times> 's) option" where
  "fetched_pages 0 fetchPage cursor s = None"
| "fetched_pages (Suc n) fetchPage cursor s =
     (case fetchPage cursor s of
        (Inl error, s') \<Rightarrow> None
      | (Inr page, s') \<Rightarrow>
          if is_last page then Some ([page], s')
          else
            (case fetched_pages n fetchPage (next_cursor page) s' of
               None \<Rightarrow> None
             | Some (pages, s'') \<Rightarrow> Some (page # pages, s'')))"

text \<open>A fetch function that serves a fixed sequence of pages, one per call.\<close>

definition serve :: "('a PaginatedResponse list, 'a) fetchPage" where
  "serve cursor pages =
     (case pages of
        [] \<Rightarrow> (Inl (JsError ''Error'' ''no more pages''), [])
      | page # rest \<Rightarrow> (Inr page, rest))"


section \<open>Asynchronous operation registry (registry.js)\<close>

datatype OpStatus = PENDING | IN_PROGRESS | COMPLETED | FAILED

text \<open>
  A timestamp is an ISO-8601 string. It is represented by the instant it denotes, in
  milliseconds, as \<^verbatim>\<open>new Date(s).getTime()\<close> reads it, or kept as a string that does not
  parse (\<^verbatim>\<open>getTime\<close> is \<^verbatim>\<open>NaN\<close> then).
\<close>

datatype timestamp = Instant int | InvalidDate string

record poll_descriptor =
  poll_method :: string
  poll_path :: string

record op_error =
  error_code :: string
  error_message :: string

record OperationReceipt =
  op_id :: string
  op_type :: string
  status :: OpStatus
  resource_id :: "string option"
  resource_type :: "string option"
  created_at :: timestamp
  updated_at :: timestamp
  metadata :: "(string \<times> json) list option"
  poll :: "poll_descriptor option"
  error :: "op_error option"

text \<open>
  The second argument of \<^verbatim>\<open>touchOp\<close>: an object with any of the receipt's properties.
  \<open>None\<close> is a property the patch does not have.
\<close>

record ReceiptPatch =
  p_op_id :: "string option"
  p_op_type :: "string option"
  p_status :: "OpStatus option"
  p_resource_id :: "string option option"
  p_resource_type :: "string option option"
  p_created_at :: "timestamp option"
  p_updated_at :: "timestamp option"
  p_metadata :: "(string \<times> json) list option option"
  p_poll :: "poll_descriptor option option"
  p_error :: "op_error option option"

definition no_patch :: ReceiptPatch where
  "no_patch =
     \<lparr>p_op_id = None, p_op_type = None, p_status = None, p_resource_id = None,
      p_resource_type = None, p_created_at = None, p_updated_at = None, p_metadata = None,
      p_poll = None, p_error = None\<rparr>"

definition overlay :: "'a \<Rightarrow> 'a option \<Rightarrow> 'a" where
  "overlay old new = (case new of None \<Rightarrow> old | Some v \<Rightarrow> v)"

text \<open>
  \<^verbatim>\<open>{ ...op, ...patch, updated_at: nowIso() }\<close>: a property of the patch replaces the
  receipt's property of that name as a whole.
\<close>

definition touchOp :: "int \<Rightarrow> OperationReceipt \<Rightarrow> ReceiptPatch \<Rightarrow> OperationReceipt" where
  "touchOp now op patch =
     \<lparr>op_id = overlay (op_id op) (p_op_id patch),
      op_type = overlay (op_type op) (p_op_type patch),
      status = overlay (status op) (p_status patch),
      resource_id = overlay (resource_id op) (p_resource_id patch),
      resource_type = overlay (resource_type op) (p_resource_type patch),
      created_at = overlay (created_at op) (p_created_at patch),
      updated_at = Instant now,
      metadata = overlay (metadata op) (p_metadata patch),
      poll = overlay (poll op) (p_poll patch),
      error = overlay (error op) (p_error patch)\<rparr>"

text \<open>
  The registry file: absent, unreadable for another reason, holding a line that is not
  JSON, or holding receipts, one per line. A write can fail.
\<close>

datatype ops_file =
    Missing
  | Unreadable string
  | Corrupt string
  | Lines "OperationReceipt list"

record registry =
  content :: ops_file
  write_error :: "string option"

definition readOps :: "registry \<Rightarrow> thrown + OperationReceipt list" where
  "readOps reg =
     (case content reg of
        Missing \<Rightarrow> Inr []
      | Unreadable msg \<Rightarrow> Inl (JsError ''Error'' msg)
      | Corrupt msg \<Rightarrow> Inl (JsError ''SyntaxError'' msg)
      | Lines ops \<Rightarrow> Inr ops)"

definition writeOps :: "OperationReceipt list \<Rightarrow> registry \<Rightarrow> (thrown + unit) \<times> registry" where
  "writeOps ops reg =
     (case write_error reg of
        Some msg \<Rightarrow> (Inl (JsError ''Error'' msg), reg)
      | None \<Rightarrow> (Inr (), reg\<lparr>content := Lines ops\<rparr>))"

definition MILLIS_PER_DAY :: int where
  "MILLIS_PER_DAY = 24 * 60 * 60 * 1000"

text \<open>
  Modelled from the spec: the constant \<^verbatim>\<open>RETENTION_DAYS\<close> of constants.js, which is not
  among the sources; the retention window is 30 days.
\<close>

definition RETENTION_DAYS :: int where
  "RETENTION_DAYS = 30"

text \<open>The filter of \<^verbatim>\<open>cleanupOps\<close>; a comparison with \<^verbatim>\<open>NaN\<close> is false.\<close>

definition retained :: "int \<Rightarrow> OperationReceipt \<Rightarrow> bool" where
  "retained now op =
     (case updated_at op of
        Instant t \<Rightarrow> t \<ge> now - RETENTION_DAYS * MILLIS_PER_DAY
      | InvalidDate _ \<Rightarrow> False)"

definition cleanupOps :: "int \<Rightarrow> OperationReceipt list \<Rightarrow> OperationReceipt list" where
  "cleanupOps now ops = filter (retained now) ops"

definition appendOp :: "int \<Rightarrow> OperationReceipt \<Rightarrow> registry \<Rightarrow> (thrown + unit) \<times> registry" where
  "appendOp now op reg =
     (case readOps reg of
        Inl e \<Rightarrow> (Inl e, reg)
      | Inr ops \<Rightarrow> writeOps (cleanupOps now ops @ [op]) reg)"

definition updateOp :: "int \<Rightarrow> OperationReceipt \<Rightarrow> registry \<Rightarrow> (thrown + unit) \<times> registry" where
  "updateOp now op reg =
     (case readOps reg of
        Inl e \<Rightarrow> (Inl e, reg)
      | Inr ops \<Rightarrow>
          writeOps
            (map (\<lambda>existing. if op_id existing = op_id op then op else existing)
               (cleanupOps now ops))
            reg)"


section \<open>Resolved configuration (config.ts)\<close>

text \<open>
  The constants of constants.js that the functions below use; the file is not among the
  sources, so they are parameters.
\<close>

record constants =
  CLI_VERSION :: string
  SCHEMA_VERSION :: int
  DEFAULT_NOTION_VERSION :: string
  DEFAULT_TIMEOUT_MS :: int
  DEFAULT_RETRIES :: int

record Config =
  cfg_token :: "string option"
  cfg_notionVersion :: string
  cfg_timeoutMs :: int
  cfg_retries :: int
  cfg_pretty :: bool
  cfg_profile :: "string option"

record ProfileConfig =
  profile_token :: "string option"
  notion_version :: "string option"
  timeout_ms :: "int option"
  profile_retries :: "int option"
  profile_pretty :: "bool option"

record ConfigFile =
  default_profile :: "string option"
  profiles :: "(string \<times> ProfileConfig) list option"

text \<open>
  The configuration file: absent, failing \<^verbatim>\<open>stat\<close> or \<^verbatim>\<open>readFile\<close> for another reason,
  or present, with permissions that are too open or not, and a text that is blank, is not
  JSON, or parses.
\<close>

datatype config_text = Blank | Malformed string | Parsed ConfigFile

datatype config_file = NoConfigFile | ConfigUnreadable string | ConfigPresent bool config_text

record GlobalOptions =
  opt_token :: "string option"
  opt_tokenStdin :: "bool option"
  opt_profile :: "string option"
  opt_notionVersion :: "string option"
  opt_timeout :: "int option"
  opt_retries :: "int option"
  opt_outputFile :: "string option"
  opt_pretty :: "bool option"
  opt_ndjson :: "bool option"
  opt_validate :: "bool option"
  opt_debug :: "bool option"
  opt_verbose :: "bool option"
  opt_quiet :: "bool option"

record envelope_metadata =
  md_command :: string
  duration_ms :: int
  version :: string
  schema_version :: int

record error_body =
  body_code :: ErrorCode
  body_message :: string
  body_recoverable :: bool
  suggested_action :: "string option"
  body_context :: "json option"

datatype envelope =
    SuccessEnvelope json "string list" envelope_metadata
  | ErrorEnvelope error_body envelope_metadata

text \<open>A line on the primary channel: an envelope, or a line streamed by a handler.\<close>

datatype out_line = Printed envelope | Streamed json

text \<open>
  The process as the harness sees it: the clock, the standard streams, the environment
  variables, the configuration file, the paths that cannot be written and the files
  written.
\<close>

record process =
  now :: int
  stdin :: string
  stdout :: "out_line list"
  stderr :: "string list"
  cfg_file :: config_file
  NOTION_TOKEN :: "string option"
  NOTION_VERSION :: "string option"
  NOTION_TIMEOUT :: "int option"
  NOTION_RETRIES :: "int option"
  NOTION_PRETTY :: "string option"
  unwritable :: "string list"
  files :: "(string \<times> envelope) list"

definition loadConfigFile :: "process \<Rightarrow> (thrown + ConfigFile option) \<times> process" where
  "loadConfigFile w =
     (case cfg_file w of
        NoConfigFile \<Rightarrow> (Inr None, w)
      | ConfigUnreadable msg \<Rightarrow> (Inl (JsError ''Error'' msg), w)
      | ConfigPresent too_open txt \<Rightarrow>
          (let w' = (if too_open then
                       w\<lparr>stderr := stderr w @
                         [''WARN: Config file permissions are too open. Run: chmod 600 ~/.config/notion-cli/config.json'']\<rparr>
                     else w)
           in case txt of
                Blank \<Rightarrow> (Inr None, w')
              | Malformed msg \<Rightarrow> (Inl (JsError ''SyntaxError'' msg), w')
              | Parsed c \<Rightarrow> (Inr (Some c), w')))"

text \<open>The operator \<^verbatim>\<open>??\<close>.\<close>

definition orElse :: "'a option \<Rightarrow> 'a option \<Rightarrow> 'a option" where
  "orElse a b = (case a of None \<Rightarrow> b | Some v \<Rightarrow> Some v)"

text \<open>The access \<^verbatim>\<open>profile?.field\<close>.\<close>

definition optional :: "'r option \<Rightarrow> ('r \<Rightarrow> 'a option) \<Rightarrow> 'a option" where
  "optional r field = (case r of None \<Rightarrow> None | Some v \<Rightarrow> field v)"

definition resolveConfig ::
  "constants \<Rightarrow> GlobalOptions \<Rightarrow> string option \<Rightarrow> process \<Rightarrow> (thrown + Config) \<times> process" where
  "resolveConfig K options stdinToken w =
     (case loadConfigFile w of
        (Inl e, w') \<Rightarrow> (Inl e, w')
      | (Inr fileConfig, w') \<Rightarrow>
          (let profileName =
                 orElse (opt_profile options)
                   (case fileConfig of None \<Rightarrow> None | Some c \<Rightarrow> default_profile c);
               profile =
                 (case profileName of
                    None \<Rightarrow> None
                  | Some name \<Rightarrow>
                      if name = [] then None
                      else
                        (case fileConfig of
                           None \<Rightarrow> None
                         | Some c \<Rightarrow>
                             (case profiles c of None \<Rightarrow> None | Some ps \<Rightarrow> map_of ps name)))
           in (Inr
                \<lparr>cfg_token =
                   orElse (opt_token options)
                     (orElse stdinToken (orElse (NOTION_TOKEN w') (optional profile profile_token))),
                 cfg_notionVersion =
                   (case orElse (opt_notionVersion options)
                           (orElse (NOTION_VERSION w') (optional profile notion_version)) of
                      None \<Rightarrow> DEFAULT_NOTION_VERSION K
                    | Some v \<Rightarrow> v),
                 cfg_timeoutMs =
                   (case orElse (opt_timeout options)
                           (orElse (NOTION_TIMEOUT w') (optional profile timeout_ms)) of
                      None \<Rightarrow> DEFAULT_TIMEOUT_MS K
                    | Some v \<Rightarrow> v),
                 cfg_retries =
                   (case orElse (opt_retries options)
                           (orElse (NOTION_RETRIES w') (optional profile profile_retries)) of
                      None \<Rightarrow> DEFAULT_RETRIES K
                    | Some v \<Rightarrow> v),
                 cfg_pretty =
                   (case orElse (opt_pretty options)
                           (orElse
                              (case NOTION_PRETTY w' of
                                 None \<Rightarrow> None
                               | Some v \<Rightarrow> if v = [] then None else Some (v = ''1''))
                              (optional profile profile_pretty)) of
                      None \<Rightarrow> False
                    | Some v \<Rightarrow> v),
                 cfg_profile = profileName\<rparr>, w')))"


section \<open>Command execution harness (cli.ts)\<close>

record Context =
  ctx_command :: string
  ctx_config :: Config
  ctx_outputFile :: "string option"
  ctx_pretty :: bool
  ctx_ndjson :: bool
  ctx_validate :: bool

record ActionResult =
  data :: json
  exitCode :: "int option"

type_synonym handler = "Context \<Rightarrow> process \<Rightarrow> (thrown + ActionResult) \<times> process"

text \<open>How the invocation ends: \<^verbatim>\<open>process.exit(code)\<close>, or a rejection nobody caught.\<close>

datatype ending = Exit int | Rejected thrown

definition is_space :: "char \<Rightarrow> bool" where
  "is_space c = (c = CHR '' '' \<or> c = CHR 0x09 \<or> c = CHR 0x0A \<or> c = CHR 0x0B \<or>
     c = CHR 0x0C \<or> c = CHR 0x0D)"

definition trim :: "string \<Rightarrow> string" where
  "trim s = rev (dropWhile is_space (rev (dropWhile is_space s)))"

text \<open>\<^verbatim>\<open>readStdin\<close> reads the stream to its end; a second read finds it empty.\<close>

definition readStdin :: "process \<Rightarrow> string \<times> process" where
  "readStdin w = (stdin w, w\<lparr>stdin := []\<rparr>)"

definition is_true :: "bool option \<Rightarrow> bool" where
  "is_true b = (b = Some True)"

definition resolveContext ::
  "constants \<Rightarrow> string \<Rightarrow> GlobalOptions \<Rightarrow> process \<Rightarrow> (thrown + Context) \<times> process" where
  "resolveContext K commandName options w =
     (let (stdinToken, w1) =
            (if is_true (opt_tokenStdin options) then
               (case readStdin w of
                  (text, w') \<Rightarrow> (if trim text = [] then None else Some (trim text), w'))
             else (None, w))
      in case resolveConfig K options stdinToken w1 of
           (Inl e, w2) \<Rightarrow> (Inl e, w2)
         | (Inr config, w2) \<Rightarrow>
             (Inr
               \<lparr>ctx_command = commandName,
                ctx_config = config,
                ctx_outputFile = opt_outputFile options,
                ctx_pretty = (case opt_pretty options of None \<Rightarrow> cfg_pretty config | Some b \<Rightarrow> b),
                ctx_ndjson = (case opt_ndjson options of None \<Rightarrow> False | Some b \<Rightarrow> b),
                ctx_validate = (case opt_validate options of None \<Rightarrow> True | Some b \<Rightarrow> b)\<rparr>,
              w2))"

definition successEnvelope ::
  "constants \<Rightarrow> string \<Rightarrow> json \<Rightarrow> string list \<Rightarrow> int \<Rightarrow> envelope" where
  "successEnvelope K command d warnings duration =
     SuccessEnvelope d warnings
       \<lparr>md_command = command, duration_ms = duration, version = CLI_VERSION K,
        schema_version = SCHEMA_VERSION K\<rparr>"

definition errorEnvelope :: "constants \<Rightarrow> string \<Rightarrow> CliError \<Rightarrow> int \<Rightarrow> envelope" where
  "errorEnvelope K command cliError duration =
     ErrorEnvelope
       \<lparr>body_code = code cliError, body_message = message cliError,
        body_recoverable = recoverable cliError,
        suggested_action = suggestedAction cliError,
        body_context = context cliError\<rparr>
       \<lparr>md_command = command, duration_ms = duration, version = CLI_VERSION K,
        schema_version = SCHEMA_VERSION K\<rparr>"

definition emitOutput :: "Context \<Rightarrow> envelope \<Rightarrow> process \<Rightarrow> (thrown + unit) \<times> process" where
  "emitOutput ctx env w =
     (let w1 = w\<lparr>stdout := stdout w @ [Printed env]\<rparr> in
      case ctx_outputFile ctx of
        None \<Rightarrow> (Inr (), w1)
      | Some file \<Rightarrow>
          if file = [] then (Inr (), w1)
          else if file \<in> set (unwritable w1) then
            (Inl (JsError ''Error'' (''EACCES: permission denied, open '' @ file)), w1)
          else (Inr (), w1\<lparr>files := files w1 @ [(file, env)]\<rparr>))"

definition ensureTokenStdinSafe :: "GlobalOptions \<Rightarrow> string option list \<Rightarrow> thrown option" where
  "ensureTokenStdinSafe options inputs =
     (if \<not> is_true (opt_tokenStdin options) then None
      else if Some ''-'' \<in> set inputs then
        Some (Cli (new_CliError INVALID_ARGUMENT
          ''--token-stdin cannot be used with stdin JSON input'' (Some True)
          (Some ''Use --token or avoid '-' JSON inputs'')
          (Some (JObj [(''conflict'', JStr ''stdin'')]))))
      else None)"

text \<open>The coercion of whatever was thrown into a \<^verbatim>\<open>CliError\<close>.\<close>

definition toCliError :: "thrown \<Rightarrow> CliError" where
  "toCliError err =
     (case err of
        Cli e \<Rightarrow> e
      | JsError name msg \<Rightarrow> new_CliError INTERNAL_ERROR msg (Some False) None None
      | NonError \<Rightarrow> new_CliError INTERNAL_ERROR ''Unknown error'' (Some False) None None)"

definition handleError ::
  "constants \<Rightarrow> string \<Rightarrow> thrown \<Rightarrow> int \<Rightarrow> GlobalOptions \<Rightarrow> process \<Rightarrow> ending \<times> process" where
  "handleError K command err start options w =
     (case resolveContext K command options w of
        (Inl e, w1) \<Rightarrow> (Rejected e, w1)
      | (Inr ctx, w1) \<Rightarrow>
          (let cliError = toCliError err;
               env = errorEnvelope K command cliError (now w1 - start)
           in case emitOutput ctx env w1 of
                (Inl e, w2) \<Rightarrow> (Rejected e, w2)
              | (Inr u, w2) \<Rightarrow>
                  (Exit (EXIT_CODES (OfError (code cliError))),
                   if is_true (opt_quiet options) then w2
                   else w2\<lparr>stderr := stderr w2 @
                     [code_name (code cliError) @ '': '' @ message cliError]\<rparr>)))"


text \<open>
  \<^verbatim>\<open>runAction\<close>, with the merged options given. The start time is the clock's reading on
  entry; the handler may write to the primary channel and let time pass.
\<close>

definition runAction ::
  "constants \<Rightarrow> string \<Rightarrow> GlobalOptions \<Rightarrow> handler \<Rightarrow> string option list \<Rightarrow> process \<Rightarrow>
     ending \<times> process" where
  "runAction K command mergedOptions handler stdinInputs w =
     (let start = now w in
      case ensureTokenStdinSafe mergedOptions stdinInputs of
        Some e \<Rightarrow> handleError K command e start mergedOptions w
      | None \<Rightarrow>
          (case resolveContext K command mergedOptions w of
             (Inl e, w1) \<Rightarrow> handleError K command e start mergedOptions w1
           | (Inr ctx, w1) \<Rightarrow>
               (case handler ctx w1 of
                  (Inl e, w2) \<Rightarrow> handleError K command e start mergedOptions w2
                | (Inr result, w2) \<Rightarrow>
                    (let code = (case exitCode result of None \<Rightarrow> EXIT_CODES SUCCESS | Some c \<Rightarrow> c) in
                     if \<not> (ctx_ndjson ctx \<and> json_get (data result) ''streamed'' = Some (JBool True))
                     then
                       (case emitOutput ctx
                               (successEnvelope K command (data result) [] (now w2 - start)) w2 of
                          (Inl e, w3) \<Rightarrow> handleError K command e start mergedOptions w3
                        | (Inr u, w3) \<Rightarrow> (Exit code, w3))
                     else (Exit code, w2)))))"

text \<open>
  The end of the process (index.ts): a rejection that \<^verbatim>\<open>runAction\<close> lets through reaches
  the \<^verbatim>\<open>catch\<close> of \<^verbatim>\<open>run()\<close>, which writes one line to the diagnostic channel and exits
  with the code of \<^verbatim>\<open>INTERNAL_ERROR\<close>.
\<close>

definition run_catch :: "ending \<times> process \<Rightarrow> int \<times> process" where
  "run_catch r =
     (case r of
        (Exit c, w) \<Rightarrow> (c, w)
      | (Rejected e, w) \<Rightarrow>
          (EXIT_CODES (OfError INTERNAL_ERROR),
           w\<lparr>stderr := stderr w @
             [''INTERNAL_ERROR: '' @
                (case e of Cli c \<Rightarrow> message c | JsError name msg \<Rightarrow> msg
                 | NonError \<Rightarrow> ''Unknown error'')]\<rparr>))"

text \<open>The envelopes among the lines of the primary channel.\<close>

definition envelopes :: "out_line list \<Rightarrow> envelope list" where
  "envelopes out = concat (map (\<lambda>l. case l of Printed e \<Rightarrow> [e] | Streamed j \<Rightarrow> []) out)"


section \<open>The command \<^verbatim>\<open>ops wait\<close> (ops.js)\<close>

definition parseId :: "string option \<Rightarrow> string option \<Rightarrow> string" where
  "parseId positional flagValue =
     (case flagValue of
        Some v \<Rightarrow> v
      | None \<Rightarrow> (case positional of Some v \<Rightarrow> v | None \<Rightarrow> []))"

text \<open>What the command works on: the registry file, the clock and the network.\<close>

record wait_world =
  reg :: registry
  clock :: int
  network :: net

definition poll_options :: "Config \<Rightarrow> poll_descriptor \<Rightarrow> RequestOptions" where
  "poll_options cfg p =
     \<lparr>method = poll_method p, path = poll_path p, query = None, body = None,
      token = cfg_token cfg, notionVersion = cfg_notionVersion cfg,
      timeoutMs = cfg_timeoutMs cfg, retries = cfg_retries cfg,
      idempotencyKey = None, contentType = None, extraHeaders = None\<rparr>"

definition op_not_found :: "string \<Rightarrow> thrown" where
  "op_not_found ident =
     Cli (new_CliError RESOURCE_NOT_FOUND ''Op not found'' (Some True)
       (Some ''Verify the op id'') (Some (JObj [(''op_id'', JStr ident)])))"

text \<open>\<^verbatim>\<open>error instanceof Error ? error.message : "Poll failed"\<close>.\<close>

definition poll_failure_message :: "thrown \<Rightarrow> string" where
  "poll_failure_message e =
     (case e of Cli c \<Rightarrow> message c | JsError name msg \<Rightarrow> msg | NonError \<Rightarrow> ''Poll failed'')"

text \<open>
  The \<^verbatim>\<open>try\<close>/\<^verbatim>\<open>catch\<close> of one iteration, for a receipt that has a poll descriptor: the
  request, then the update of the registry; on any failure the receipt is marked
  \<^verbatim>\<open>FAILED\<close>, written and returned. \<open>None\<close> says that the loop goes on.
\<close>

definition poll_step ::
  "upstream \<Rightarrow> Config \<Rightarrow> int \<Rightarrow> OperationReceipt \<Rightarrow> poll_descriptor \<Rightarrow> registry \<Rightarrow> net \<Rightarrow>
     (thrown + OperationReceipt) option \<times> registry \<times> net" where
  "poll_step up cfg t found p r n =
     (case request up (poll_options cfg p) n of
        (answer, n') \<Rightarrow>
          (let tried =
                 (case answer of
                    Inl e \<Rightarrow> (Inl e, r)
                  | Inr response \<Rightarrow>
                      updateOp t
                        (touchOp t found
                           (no_patch\<lparr>p_metadata := Some (Some [(''poll'', resp_data response)])\<rparr>))
                        r)
           in case tried of
                (Inr u, r') \<Rightarrow> (None, r', n')
              | (Inl e, r') \<Rightarrow>
                  (let failed =
                         touchOp t found
                           (no_patch\<lparr>p_status := Some FAILED,
                              p_error := Some (Some \<lparr>error_code = ''POLL_FAILED'',
                                error_message = poll_failure_message e\<rparr>)\<rparr>)
                   in case updateOp t failed r' of
                        (Inl e2, r'') \<Rightarrow> (Some (Inl e2), r'', n')
                      | (Inr u, r'') \<Rightarrow> (Some (Inr failed), r'', n'))))"

text \<open>
  The loop \<^verbatim>\<open>while (Date.now() < deadline)\<close>. Time passes in the 2000 ms wait between two
  iterations; the reads of the clock within one iteration see one instant.
\<close>

function wait_loop ::
  "upstream \<Rightarrow> Config \<Rightarrow> string \<Rightarrow> int \<Rightarrow> wait_world \<Rightarrow> (thrown + OperationReceipt) \<times> wait_world" where
  "wait_loop up cfg ident deadline w =
     (if clock w < deadline then
        (case readOps (reg w) of
           Inl e \<Rightarrow> (Inl e, w)
         | Inr opsList \<Rightarrow>
             (case find (\<lambda>item. op_id item = ident) opsList of
                None \<Rightarrow> (Inl (op_not_found ident), w)
              | Some found \<Rightarrow>
                  if status found = COMPLETED \<or> status found = FAILED then (Inr found, w)
                  else
                    (case poll found of
                       None \<Rightarrow> wait_loop up cfg ident deadline (w\<lparr>clock := clock w + 2000\<rparr>)
                     | Some p \<Rightarrow>
                         (case poll_step up cfg (clock w) found p (reg w) (network w) of
                            (Some result, r', n') \<Rightarrow> (result, w\<lparr>reg := r', network := n'\<rparr>)
                          | (None, r', n') \<Rightarrow>
                              wait_loop up cfg ident deadline
                                (w\<lparr>reg := r', network := n', clock := clock w + 2000\<rparr>)))))
      else
        (Inl (Cli (new_CliError TIMEOUT ''Op wait timed out'' (Some True)
           (Some ''Increase --timeout'') (Some (JObj [(''op_id'', JStr ident)])))), w))"
  by pat_completeness auto
termination
  by (relation "measure (\<lambda>(up, cfg, ident, deadline, w). nat (deadline - clock w))") auto

text \<open>The handler of \<^verbatim>\<open>ops wait\<close>; \<open>timeout\<close> is the option \<^verbatim>\<open>--timeout\<close>, in seconds.\<close>

definition ops_wait ::
  "upstream \<Rightarrow> Config \<Rightarrow> string option \<Rightarrow> string option \<Rightarrow> int \<Rightarrow> wait_world \<Rightarrow>
     (thrown + OperationReceipt) \<times> wait_world" where
  "ops_wait up cfg opId flagId timeout w =
     (let ident = parseId opId flagId in
      if ident = [] then
        (Inl (Cli (new_CliError MISSING_ARGUMENT ''Op id is required'' (Some True)
           (Some ''Provide <op_id> or --id'') None)), w)
      else wait_loop up cfg ident (clock w + timeout * 1000) w)"


section \<open>Notions of the statements, and example inputs\<close>

text \<open>A request for \<^verbatim>\<open>/users\<close> with a given retry count, and a network not yet used.\<close>

definition opts_users :: "int \<Rightarrow> RequestOptions" where
  "opts_users n = \<lparr>method = ''GET'', path = ''/users'', query = None, body = None,
     token = Some ''secret'', notionVersion = ''2022-06-28'', timeoutMs = 30000, retries = n,
     idempotencyKey = None, contentType = None, extraHeaders = None\<rparr>"

definition net0 :: net where
  "net0 = \<lparr>calls = 0, sleeps = []\<rparr>"

text \<open>Upstreams that give the same answer to every attempt.\<close>

definition upstream_429 :: upstream where
  "upstream_429 opts k =
     Response \<lparr>resp_status = 429, resp_data = JObj [], resp_retry_after = None\<rparr>"

definition upstream_404 :: upstream where
  "upstream_404 opts k =
     Response \<lparr>resp_status = 404, resp_data = JObj [(''message'', JStr ''not found'')],
       resp_retry_after = None\<rparr>"

definition upstream_pending :: upstream where
  "upstream_pending opts k =
     Response \<lparr>resp_status = 200, resp_data = JObj [(''status'', JStr ''pending'')],
       resp_retry_after = None\<rparr>"

text \<open>The upstream answers 429 to every attempt at the request.\<close>

definition always_429 :: "upstream \<Rightarrow> RequestOptions \<Rightarrow> bool" where
  "always_429 up opts = (\<forall>k. \<exists>r. up opts k = Response r \<and> resp_status r = 429)"

text \<open>
  The spec's notion of a parent-directory segment: the path, cut at the slashes, has a
  piece that is \<^verbatim>\<open>..\<close>.
\<close>

fun segments :: "string \<Rightarrow> string list" where
  "segments [] = [[]]"
| "segments (c # cs) =
     (if c = CHR ''/'' then [] # segments cs
      else (case segments cs of seg # segs \<Rightarrow> (c # seg) # segs | [] \<Rightarrow> [[c]]))"

definition has_parent_segment :: "string \<Rightarrow> bool" where
  "has_parent_segment p = (''..'' \<in> set (segments p))"

text \<open>
  The two pages of the spec's scenario, and a sequence whose second page claims more
  results but gives no cursor.
\<close>

definition two_pages :: "nat PaginatedResponse list" where
  "two_pages =
     [\<lparr>results = [1, 2], has_more = True, next_cursor = Some ''a''\<rparr>,
      \<lparr>results = [3], has_more = False, next_cursor = None\<rparr>]"

definition dishonest_pages :: "nat PaginatedResponse list" where
  "dishonest_pages =
     [\<lparr>results = [1, 2], has_more = True, next_cursor = Some ''a''\<rparr>,
      \<lparr>results = [3], has_more = True, next_cursor = None\<rparr>,
      \<lparr>results = [4], has_more = False, next_cursor = None\<rparr>]"

text \<open>The items of a sequence of pages, in page order.\<close>

definition items_of :: "'a PaginatedResponse list \<Rightarrow> 'a list" where
  "items_of pages = concat (map results pages)"


text \<open>
  The claim's words: the receipt's \<^verbatim>\<open>updated_at\<close> is more than 30 days before the
  current time.
\<close>

definition expired :: "int \<Rightarrow> OperationReceipt \<Rightarrow> bool" where
  "expired t op =
     (case updated_at op of
        Instant u \<Rightarrow> u < t - 30 * (24 * 60 * 60 * 1000)
      | InvalidDate _ \<Rightarrow> False)"

text \<open>The keys of a receipt's metadata map.\<close>

definition metadata_keys :: "OperationReceipt \<Rightarrow> string list" where
  "metadata_keys op = (case metadata op of None \<Rightarrow> [] | Some m \<Rightarrow> map fst m)"

text \<open>The keys that a patch mentions for the metadata map.\<close>

definition patch_keys :: "ReceiptPatch \<Rightarrow> string list" where
  "patch_keys patch =
     (case p_metadata patch of None \<Rightarrow> [] | Some None \<Rightarrow> [] | Some (Some m) \<Rightarrow> map fst m)"

text \<open>
  A receipt as \<^verbatim>\<open>file-uploads send --async\<close> creates it, with a given status and time of
  last update, and a registry file that holds given receipts.
\<close>

definition upload_receipt :: "OpStatus \<Rightarrow> int \<Rightarrow> OperationReceipt" where
  "upload_receipt st t =
     \<lparr>op_id = ''op-1'', op_type = ''file_upload_send'', status = st,
      resource_id = Some ''f1'', resource_type = Some ''file_upload'',
      created_at = Instant 0, updated_at = Instant t,
      metadata = Some [(''attempt'', JNum 1)],
      poll = Some \<lparr>poll_method = ''GET'', poll_path = ''/file_uploads/f1''\<rparr>,
      error = None\<rparr>"

definition registry_of :: "OperationReceipt list \<Rightarrow> registry" where
  "registry_of ops = \<lparr>content = Lines ops, write_error = None\<rparr>"

definition day :: int where
  "day = 24 * 60 * 60 * 1000"

text \<open>The patch that the wait command applies after a successful poll.\<close>

definition poll_patch :: "json \<Rightarrow> ReceiptPatch" where
  "poll_patch d = no_patch\<lparr>p_metadata := Some (Some [(''poll'', d)])\<rparr>"

definition cfg0 :: Config where
  "cfg0 = \<lparr>cfg_token = Some ''secret'', cfg_notionVersion = ''2022-06-28'',
     cfg_timeoutMs = 30000, cfg_retries = 3, cfg_pretty = False, cfg_profile = None\<rparr>"

definition world_of :: "OperationReceipt list \<Rightarrow> wait_world" where
  "world_of ops = \<lparr>reg = registry_of ops, clock = 0, network = net0\<rparr>"

text \<open>A process with a given configuration file, and a handler that returns a user.\<close>

definition K0 :: constants where
  "K0 = \<lparr>CLI_VERSION = ''1.0.0'', SCHEMA_VERSION = 1, DEFAULT_NOTION_VERSION = ''2022-06-28'',
     DEFAULT_TIMEOUT_MS = 30000, DEFAULT_RETRIES = 3\<rparr>"

definition no_options :: GlobalOptions where
  "no_options = \<lparr>opt_token = None, opt_tokenStdin = None, opt_profile = None,
     opt_notionVersion = None, opt_timeout = None, opt_retries = None, opt_outputFile = None,
     opt_pretty = None, opt_ndjson = None, opt_validate = None, opt_debug = None,
     opt_verbose = None, opt_quiet = None\<rparr>"

definition process_with :: "config_file \<Rightarrow> process" where
  "process_with c = \<lparr>now = 0, stdin = [], stdout = [], stderr = [], cfg_file = c,
     NOTION_TOKEN = Some ''secret'', NOTION_VERSION = None, NOTION_TIMEOUT = None,
     NOTION_RETRIES = None, NOTION_PRETTY = None, unwritable = [''/proc/out.json''], files = []\<rparr>"

definition users_me :: handler where
  "users_me ctx w = (Inr \<lparr>data = JObj [(''object'', JStr ''user'')], exitCode = None\<rparr>, w)"

text \<open>The configuration file cannot be loaded.\<close>

definition config_broken :: "process \<Rightarrow> bool" where
  "config_broken w =
     (case cfg_file w of
        ConfigUnreadable msg \<Rightarrow> True
      | ConfigPresent too_open (Malformed msg) \<Rightarrow> True
      | _ \<Rightarrow> False)"


section \<open>Properties of the request engine\<close>

declare request_loop.simps [simp del]

lemma doFetch_calls: "doFetch up opts st = (r, st') \<Longrightarrow> calls st' = Suc (calls st)"
  by (auto simp: doFetch_def Let_def split: fetch_outcome.splits)

lemma attempt_body_calls: "attempt_body up opts a le st = (c, st') \<Longrightarrow> calls st' = Suc (calls st)"
  by (auto simp: attempt_body_def split: prod.splits sum.splits if_splits dest: doFetch_calls)

text \<open>Each pass of the loop makes one physical attempt, and the counter bounds the passes.\<close>

lemma request_loop_calls_le:
  "calls (snd (request_loop up opts a le st)) \<le> calls st + nat (retries opts + 1 - a)"
proof (induction up opts a le st rule: request_loop.induct)
  case (1 up opts attempt lastError st)
  show ?case
  proof (cases "attempt \<le> retries opts")
    case False
    then show ?thesis by (simp add: request_loop.simps[of up opts attempt])
  next
    case True
    obtain c st' where ab: "attempt_body up opts (attempt + 1) lastError st = (c, st')"
      by (cases "attempt_body up opts (attempt + 1) lastError st")
    have cs: "calls st' = Suc (calls st)" using attempt_body_calls[OF ab] .
    show ?thesis
    proof (cases c)
      case (Continue le')
      have "calls (snd (request_loop up opts (attempt + 1) le' st')) \<le> calls st' + nat (retries opts + 1 - (attempt + 1))"
        using "1.IH"[OF True ab[symmetric] Continue] by simp
      then show ?thesis using True ab Continue cs
        by (simp add: request_loop.simps[of up opts attempt])
    qed (use True ab cs in \<open>simp_all add: request_loop.simps[of up opts attempt]\<close>)
  qed
qed

lemma response_error_429: "resp_status r = 429 \<Longrightarrow> code (response_error r) = RATE_LIMITED"
  by (simp add: response_error_def new_CliError_def Let_def)

lemma attempt_body_429:
  assumes "up opts (calls st) = Response r" "resp_status r = 429"
  shows "attempt_body up opts a le st =
     (if a \<le> retries opts then
        (Continue le, st\<lparr>calls := Suc (calls st), sleeps := sleeps st @ [retry_delay r]\<rparr>)
      else (Throw (Cli (response_error r)), st\<lparr>calls := Suc (calls st)\<rparr>))"
  using assms
  by (simp add: attempt_body_def doFetch_def Let_def catch_block_def response_error_429)

lemma request_loop_429:
  "always_429 up opts \<Longrightarrow> a \<le> retries opts \<Longrightarrow>
   \<exists>e st'. request_loop up opts a le st = (Inl (Cli e), st') \<and> code e = RATE_LIMITED \<and>
     calls st' = calls st + nat (retries opts + 1 - a)"
proof (induction up opts a le st rule: request_loop.induct)
  case (1 up opts attempt lastError st)
  from "1.prems"(1) obtain r where r: "up opts (calls st) = Response r" "resp_status r = 429"
    unfolding always_429_def by blast
  note ab = attempt_body_429[of up opts st r "attempt + 1" lastError, OF r]
  show ?case
  proof (cases "attempt + 1 \<le> retries opts")
    case True
    let ?st' = "st\<lparr>calls := Suc (calls st), sleeps := sleeps st @ [retry_delay r]\<rparr>"
    from True ab have ab': "(Continue lastError, ?st') = attempt_body up opts (attempt + 1) lastError st" by simp
    from "1.IH"[OF "1.prems"(2) ab' refl "1.prems"(1) True]
    obtain e st'' where "request_loop up opts (attempt + 1) lastError ?st' = (Inl (Cli e), st'')"
      "code e = RATE_LIMITED" "calls st'' = calls ?st' + nat (retries opts + 1 - (attempt + 1))" by blast
    then show ?thesis using True "1.prems"(2) ab
      by (simp add: request_loop.simps[of up opts attempt], linarith?)
  next
    case False
    then show ?thesis using "1.prems"(2) ab r
      by (simp add: request_loop.simps[of up opts attempt] response_error_429)
  qed
qed

lemma validatePath_users: "validatePath ''/users'' = None"
  by code_simp

lemma startsWith_iff: "startsWith s sub \<longleftrightarrow> (\<exists>q. s = sub @ q)"
  by (induction s sub rule: startsWith.induct) auto

lemma js_includes_iff: "js_includes s sub \<longleftrightarrow> (\<exists>p q. s = p @ sub @ q)"
proof (induction s)
  case Nil
  then show ?case by auto
next
  case (Cons c cs)
  show ?case
  proof
    assume "js_includes (c # cs) sub"
    then consider "startsWith (c # cs) sub" | "js_includes cs sub" by auto
    then show "\<exists>p q. c # cs = p @ sub @ q"
    proof cases
      case 1
      then obtain q where "c # cs = sub @ q" by (auto simp: startsWith_iff)
      then have "c # cs = [] @ sub @ q" by simp
      then show ?thesis by blast
    next
      case 2
      then obtain p q where "cs = p @ sub @ q" using Cons.IH by blast
      then have "c # cs = (c # p) @ sub @ q" by simp
      then show ?thesis by blast
    qed
  next
    assume "\<exists>p q. c # cs = p @ sub @ q"
    then obtain p q where pq: "c # cs = p @ sub @ q" by blast
    show "js_includes (c # cs) sub"
    proof (cases p)
      case Nil
      then have "\<exists>q. c # cs = sub @ q" using pq by simp
      then have "startsWith (c # cs) sub" by (simp only: startsWith_iff)
      then show ?thesis by simp
    next
      case (Cons a p')
      then have "cs = p' @ sub @ q" using pq by simp
      then show ?thesis using Cons.IH by auto
    qed
  qed
qed

lemma hexval_dot: "hexval CHR ''.'' = None"
  by (simp add: hexval_def)

lemma pct_octet_dots:
  "pct_octet s = Some (b, rest) \<Longrightarrow> js_includes s ''..'' \<Longrightarrow> js_includes rest ''..''"
  by (induction s rule: pct_octet.induct) (auto simp: hexval_dot split: if_splits option.splits)

lemma pct_octets_dots:
  "pct_octets k s = Some (bs, rest) \<Longrightarrow> js_includes s ''..'' \<Longrightarrow> js_includes rest ''..''"
proof (induction k arbitrary: s bs rest)
  case 0
  then show ?case by simp
next
  case (Suc k)
  from Suc.prems(1) obtain b mid bs' where
    o: "pct_octet s = Some (b, mid)" and os: "pct_octets k mid = Some (bs', rest)"
    by (auto split: option.splits)
  have "js_includes mid ''..''" using pct_octet_dots[OF o Suc.prems(2)] .
  then show ?case using Suc.IH[OF os] by simp
qed

lemma js_includes_append: "js_includes d sub \<Longrightarrow> js_includes (xs @ d) sub"
  by (induction xs) auto

lemma decode_keeps_dots:
  "decodeURIComponent p = Inr d \<Longrightarrow> js_includes p ''..'' \<Longrightarrow> js_includes d ''..''"
proof (induction p arbitrary: d rule: decodeURIComponent.induct)
  case 1
  then show ?case by simp
next
  case (2 c cs)
  show ?case
  proof (cases "c = CHR ''%''")
    case False
    with "2.prems"(1) obtain d' where d': "decodeURIComponent cs = Inr d'" "d = c # d'"
      by (auto split: sum.splits)
    show ?thesis
    proof (cases "js_includes cs ''..''")
      case True
      with "2.IH"(1)[OF False d'(1)] d'(2) show ?thesis by simp
    next
      case nin: False
      with "2.prems"(2) have "startsWith (c # cs) ''..''" by simp
      then obtain cs' where cs: "c = CHR ''.''" "cs = CHR ''.'' # cs'"
        by (cases cs) auto
      with d'(1) obtain d'' where "d' = CHR ''.'' # d''"
        by (auto split: sum.splits)
      with d'(2) cs(1) show ?thesis by simp
    qed
  next
    case True
    with "2.prems"(1) obtain b rest where o: "pct_octet (c # cs) = Some (b, rest)"
      by (auto split: option.splits)
    have r: "js_includes rest ''..''" using pct_octet_dots[OF o "2.prems"(2)] .
    show ?thesis
    proof (cases "b < 128")
      case lt: True
      with "2.prems"(1) True o obtain d' where d': "decodeURIComponent rest = Inr d'" "d = char_of b # d'"
        by (auto split: sum.splits)
      have nn: "\<not> c \<noteq> CHR ''%''" using True by simp
      from "2.IH"(2)[OF nn o refl lt d'(1) r] d'(2) show ?thesis by simp
    next
      case ge: False
      with "2.prems"(1) True o have u: "\<not> (utf8_len b = 1 \<or> utf8_len b > 4)"
        by (auto split: if_splits)
      with "2.prems"(1) True o ge obtain bs rest' where
        os: "pct_octets (utf8_len b - 1) rest = Some (bs, rest')"
        by (auto split: option.splits)
      with "2.prems"(1) True o ge u have v: "valid_utf8 (b # bs)"
        by (auto split: if_splits)
      with "2.prems"(1) True o ge u os obtain d' where
        d': "decodeURIComponent rest' = Inr d'" "d = map char_of (b # bs) @ d'"
        by (auto split: sum.splits)
      have r': "js_includes rest' ''..''" using pct_octets_dots[OF os r] .
      have nn: "\<not> c \<noteq> CHR ''%''" using True by simp
      from "2.IH"(3)[OF nn o refl ge u os refl v d'(1) r']
      have "js_includes d' ''..''" .
      then show ?thesis unfolding d'(2) by (rule js_includes_append)
    qed
  qed
qed

lemma decode_error: "decodeURIComponent p = Inl e \<Longrightarrow> e = URIError"
  by (induction p arbitrary: e rule: decodeURIComponent.induct)
    (auto split: if_splits option.splits sum.splits)

lemma lower_dot: "lower_char CHR ''.'' = CHR ''.''"
  by (simp add: lower_char_def)

lemma toLowerCase_keeps_dots: "js_includes d ''..'' \<Longrightarrow> js_includes (toLowerCase d) ''..''"
proof -
  assume "js_includes d ''..''"
  then obtain p q where "d = p @ ''..'' @ q" by (auto simp: js_includes_iff)
  then have "toLowerCase d = toLowerCase p @ ''..'' @ toLowerCase q"
    by (simp add: toLowerCase_def lower_dot)
  then show ?thesis by (auto simp: js_includes_iff)
qed

text \<open>
  A path with two adjacent dots never reaches the network: it is stopped by
  \<^verbatim>\<open>INVALID_ARGUMENT\<close> when it percent-decodes, and by \<^verbatim>\<open>URIError\<close> when it does not.
\<close>

lemma literal_dots_never_fetched:
  assumes "js_includes (path opts) ''..''"
  shows "\<exists>e. request up opts st = (Inl e, st) \<and>
    (e = URIError \<or> (\<exists>c. e = Cli c \<and> code c = INVALID_ARGUMENT))"
proof (cases "decodeURIComponent (path opts)")
  case (Inl e)
  then have "e = URIError" by (rule decode_error)
  with Inl show ?thesis by (simp add: request_def validatePath_def)
next
  case (Inr d)
  have "js_includes (toLowerCase d) ''..''"
    using decode_keeps_dots[OF Inr assms] by (rule toLowerCase_keeps_dots)
  with Inr show ?thesis
    by (simp add: request_def validatePath_def Let_def new_CliError_def)
qed

text \<open>Escaped forms of the parent directory, in either case of the hex digits.\<close>

lemma encoded_traversal_rejected:
  "decodeURIComponent ''/v1/%2e%2e/users'' = Inr ''/v1/../users'' \<and>
   validatePath ''/v1/%2e%2e/users'' \<noteq> None \<and>
   decodeURIComponent ''/v1/%2E%2E%2Fusers'' = Inr ''/v1/../users'' \<and>
   validatePath ''/v1/%2E%2E%2Fusers'' \<noteq> None \<and>
   decodeURIComponent ''/v1/..%2fusers'' = Inr ''/v1/../users'' \<and>
   validatePath ''/v1/..%2fusers'' \<noteq> None"
  by code_simp

text \<open>
  C5. With \<^verbatim>\<open>retries = N\<close>, a request makes at most \<open>N + 1\<close> physical attempts, whatever
  the upstream does; if the path passes validation and the upstream answers 429 to every
  attempt, the request makes exactly \<open>N + 1\<close> attempts and then throws \<^verbatim>\<open>RATE_LIMITED\<close>.
  \<open>N\<close> is a count, \<open>0 \<le> N\<close>.
\<close>

theorem retry_bound:
  assumes "0 \<le> retries opts"
  shows "int (calls (snd (request up opts st))) \<le> int (calls st) + (retries opts + 1) \<and>
    (validatePath (path opts) = None \<and> always_429 up opts \<longrightarrow>
       (\<exists>e. fst (request up opts st) = Inl (Cli e) \<and> code e = RATE_LIMITED) \<and>
       int (calls (snd (request up opts st))) = int (calls st) + (retries opts + 1))"
proof (intro conjI impI)
  show "int (calls (snd (request up opts st))) \<le> int (calls st) + (retries opts + 1)"
  proof (cases "validatePath (path opts)")
    case None
    then show ?thesis
      using request_loop_calls_le[of up opts 0 None st] assms by (simp add: request_def)
  next
    case (Some e)
    then show ?thesis using assms by (simp add: request_def)
  qed
next
  assume h: "validatePath (path opts) = None \<and> always_429 up opts"
  from request_loop_429[of up opts 0 None st] h assms
  obtain e st' where r: "request_loop up opts 0 None st = (Inl (Cli e), st')"
    "code e = RATE_LIMITED" "calls st' = calls st + nat (retries opts + 1 - 0)" by blast
  from r h show "\<exists>e. fst (request up opts st) = Inl (Cli e) \<and> code e = RATE_LIMITED"
    by (simp add: request_def)
  from r h assms show "int (calls (snd (request up opts st))) = int (calls st) + (retries opts + 1)"
    by (simp add: request_def)
qed

text \<open>With \<^verbatim>\<open>retries = 2\<close> and a permanent 429: three attempts, then \<^verbatim>\<open>RATE_LIMITED\<close>.\<close>

theorem retry_bound_witness:
  "0 \<le> retries (opts_users 2) \<and> validatePath (path (opts_users 2)) = None \<and>
   always_429 upstream_429 (opts_users 2) \<and>
   (\<exists>e. fst (request upstream_429 (opts_users 2) net0) = Inl (Cli e) \<and> code e = RATE_LIMITED) \<and>
   calls (snd (request upstream_429 (opts_users 2) net0)) = 3"
proof -
  have a: "0 \<le> retries (opts_users 2)" by (simp add: opts_users_def)
  have b: "validatePath (path (opts_users 2)) = None"
    by (simp add: opts_users_def validatePath_users)
  have c: "always_429 upstream_429 (opts_users 2)"
    by (simp add: always_429_def upstream_429_def)
  from retry_bound[OF a, of upstream_429 net0] b c
  show ?thesis by (simp add: opts_users_def net0_def)
qed

text \<open>
  C2. A first answer 404 whose JSON body has a non-empty \<^verbatim>\<open>message\<close> makes the request throw
  \<^verbatim>\<open>RESOURCE_NOT_FOUND\<close> with that message after one attempt, and the exit code of that code
  is 4; the error's \<^verbatim>\<open>recoverable\<close> is false, since the engine sets it only for 429 and
  for 500 and above.
\<close>

theorem http_404_error:
  assumes "up opts (calls st) = Response r"
    and "resp_status r = 404"
    and "json_get (resp_data r) ''message'' = Some (JStr m)"
    and "m \<noteq> []"
    and "validatePath (path opts) = None"
    and "0 \<le> retries opts"
  shows "\<exists>e. request up opts st = (Inl (Cli e), st\<lparr>calls := Suc (calls st)\<rparr>) \<and>
    code e = RESOURCE_NOT_FOUND \<and> message e = m \<and> recoverable e = False \<and>
    EXIT_CODES (OfError (code e)) = 4"
proof -
  have e: "response_error r =
      new_CliError RESOURCE_NOT_FOUND m (Some False) None
        (Some (JObj ((''status'', JNum 404) #
           (case json_get (resp_data r) ''code'' of None \<Rightarrow> [] | Some c \<Rightarrow> [(''notion_code'', c)]))))"
    using assms(2-4) by (simp add: response_error_def Let_def)
  have "attempt_body up opts 1 None st =
      (Throw (Cli (response_error r)), st\<lparr>calls := Suc (calls st)\<rparr>)"
    using assms(1,2) e
    by (simp add: attempt_body_def doFetch_def Let_def catch_block_def new_CliError_def)
  then have "request up opts st = (Inl (Cli (response_error r)), st\<lparr>calls := Suc (calls st)\<rparr>)"
    using assms(5,6) by (simp add: request_def request_loop.simps[of up opts 0])
  then show ?thesis using e by (simp add: new_CliError_def)
qed

text \<open>The scenario of the spec: 404 with the body \<^verbatim>\<open>{"message":"not found"}\<close>.\<close>

theorem http_404_error_witness:
  "\<exists>e. request upstream_404 (opts_users 3) net0 = (Inl (Cli e), \<lparr>calls = 1, sleeps = []\<rparr>) \<and>
     code e = RESOURCE_NOT_FOUND \<and> message e = ''not found'' \<and> recoverable e = False \<and>
     EXIT_CODES (OfError (code e)) = 4"
proof -
  have a: "upstream_404 (opts_users 3) (calls net0) =
      Response \<lparr>resp_status = 404, resp_data = JObj [(''message'', JStr ''not found'')],
        resp_retry_after = None\<rparr>"
    by (simp add: upstream_404_def)
  have b: "validatePath (path (opts_users 3)) = None"
    by (simp add: opts_users_def validatePath_users)
  have c: "0 \<le> retries (opts_users 3)" by (simp add: opts_users_def)
  from http_404_error[of upstream_404 "opts_users 3" net0
      "\<lparr>resp_status = 404, resp_data = JObj [(''message'', JStr ''not found'')],
        resp_retry_after = None\<rparr>" "''not found''", OF a _ _ _ b c]
  show ?thesis by (simp add: net0_def)
qed

text \<open>
  C8. The path \<^verbatim>\<open>/../%\<close> contains \<^verbatim>\<open>../\<close>. The request is stopped before any attempt,
  but by the \<^verbatim>\<open>URIError\<close> that \<^verbatim>\<open>decodeURIComponent\<close> throws on the lone \<^verbatim>\<open>%\<close>, not by
  \<^verbatim>\<open>INVALID_ARGUMENT\<close>; the harness turns it into \<^verbatim>\<open>INTERNAL_ERROR\<close>, exit code 125.
\<close>

theorem traversal_malformed_escape:
  "request up (opts\<lparr>path := ''/../%''\<rparr>) st = (Inl (JsError ''URIError'' ''URI malformed''), st) \<and>
   js_includes ''/../%'' ''../'' \<and>
   toCliError (JsError ''URIError'' ''URI malformed'') =
     \<lparr>code = INTERNAL_ERROR, message = ''URI malformed'', recoverable = False,
      suggestedAction = None, context = None\<rparr> \<and>
   EXIT_CODES (OfError INTERNAL_ERROR) = 125"
proof -
  have "decodeURIComponent ''/../%'' = Inl URIError" by code_simp
  then show ?thesis
    by (simp add: request_def validatePath_def URIError_def toCliError_def new_CliError_def)
qed

text \<open>
  C10. A path whose percent-decoded, lower-cased form contains \<^verbatim>\<open>..\<close> anywhere, or still
  contains \<^verbatim>\<open>%2e\<close>, is rejected with \<^verbatim>\<open>INVALID_ARGUMENT\<close> before any attempt. The check is
  broader than the detection of a parent-directory segment: \<^verbatim>\<open>/blocks/a..b\<close> has no such
  segment and is rejected.
\<close>

theorem path_validation_broader:
  "(decodeURIComponent (path opts) = Inr decoded \<and>
      (js_includes (toLowerCase decoded) ''..'' \<or> js_includes (toLowerCase decoded) ''%2e'') \<longrightarrow>
      (\<exists>e. request up opts st = (Inl (Cli e), st) \<and> code e = INVALID_ARGUMENT)) \<and>
   (\<exists>e. request up (opts\<lparr>path := ''/blocks/a..b''\<rparr>) st = (Inl (Cli e), st) \<and>
      code e = INVALID_ARGUMENT) \<and>
   decodeURIComponent ''/blocks/a..b'' = Inr ''/blocks/a..b'' \<and>
   \<not> has_parent_segment (toLowerCase ''/blocks/a..b'')"
proof (intro conjI impI)
  assume "decodeURIComponent (path opts) = Inr decoded \<and>
      (js_includes (toLowerCase decoded) ''..'' \<or> js_includes (toLowerCase decoded) ''%2e'')"
  then show "\<exists>e. request up opts st = (Inl (Cli e), st) \<and> code e = INVALID_ARGUMENT"
    by (auto simp: request_def validatePath_def Let_def new_CliError_def)
next
  have d: "decodeURIComponent ''/blocks/a..b'' = Inr ''/blocks/a..b''" by code_simp
  show "decodeURIComponent ''/blocks/a..b'' = Inr ''/blocks/a..b''" by (rule d)
  have "validatePath ''/blocks/a..b'' \<noteq> None" by code_simp
  have i: "js_includes (toLowerCase ''/blocks/a..b'') ''..''" by code_simp
  show "\<exists>e. request up (opts\<lparr>path := ''/blocks/a..b''\<rparr>) st = (Inl (Cli e), st) \<and>
      code e = INVALID_ARGUMENT"
    using d i by (simp add: request_def validatePath_def Let_def new_CliError_def)
  show "\<not> has_parent_segment (toLowerCase ''/blocks/a..b'')" by code_simp
qed

text \<open>A doubly encoded path: once decoded it has no \<^verbatim>\<open>..\<close> but keeps \<^verbatim>\<open>%2e\<close>.\<close>

theorem path_validation_broader_witness:
  "decodeURIComponent (path ((opts_users 0)\<lparr>path := ''/%252E%252e/users''\<rparr>)) = Inr ''/%2E%2e/users'' \<and>
   js_includes (toLowerCase ''/%2E%2e/users'') ''%2e'' \<and>
   \<not> js_includes (toLowerCase ''/%2E%2e/users'') ''..'' \<and>
   (\<exists>e. request upstream_404 ((opts_users 0)\<lparr>path := ''/%252E%252e/users''\<rparr>) net0 = (Inl (Cli e), net0) \<and>
      code e = INVALID_ARGUMENT)"
proof -
  have a: "decodeURIComponent (path ((opts_users 0)\<lparr>path := ''/%252E%252e/users''\<rparr>)) = Inr ''/%2E%2e/users''"
    by code_simp
  have b: "js_includes (toLowerCase ''/%2E%2e/users'') ''%2e''" by code_simp
  have c: "\<not> js_includes (toLowerCase ''/%2E%2e/users'') ''..''" by code_simp
  from path_validation_broader[of "(opts_users 0)\<lparr>path := ''/%252E%252e/users''\<rparr>" "''/%2E%2e/users''" upstream_404 net0]
    a b c
  show ?thesis by blast
qed


section \<open>Properties of the pagination engine\<close>

text \<open>A run of the loop over the pages that the fetch function hands out.\<close>

lemma paginate_loop_pages:
  "fetched_pages n fetchPage cursor s = Some (pages, s') \<Longrightarrow>
   paginate_loop fetchPage ndjson cursor acc s =
     Some (None,
       (if ndjson then
          acc\<lparr>total := total acc + length (items_of pages),
              written := written acc @ map Item (items_of pages)\<rparr>
        else
          acc\<lparr>all_items := all_items acc @ items_of pages,
              total := length (all_items acc @ items_of pages)\<rparr>),
       s')"
proof (induction n arbitrary: cursor s acc pages)
  case 0
  then show ?case by simp
next
  case (Suc n)
  obtain r s1 where f: "fetchPage cursor s = (r, s1)" by (cases "fetchPage cursor s")
  with Suc.prems obtain page where r: "r = Inr page"
    by (cases r) auto
  show ?case
  proof (cases "is_last page")
    case True
    with Suc.prems f r have "pages = [page]" "s' = s1" by auto
    then show ?thesis using f r True
      by (subst paginate_loop.simps) (simp add: take_page_def items_of_def)
  next
    case False
    with Suc.prems f r obtain rest where
      rest: "fetched_pages n fetchPage (next_cursor page) s1 = Some (rest, s')" "pages = page # rest"
      by (auto split: option.splits)
    from Suc.IH[OF rest(1), of "take_page ndjson page acc"]
    show ?thesis using f r False rest(2)
      by (subst paginate_loop.simps) (simp add: take_page_def items_of_def)
  qed
qed

lemma serve_Cons: "serve cursor (page # rest) = (Inr page, rest)"
  by (simp add: serve_def)

lemma fetched_pages_serve:
  "pages \<noteq> [] \<Longrightarrow> \<forall>p \<in> set (butlast pages). \<not> is_last p \<Longrightarrow> is_last (last pages) \<Longrightarrow>
   fetched_pages (length pages) serve cursor (pages @ later) = Some (pages, later)"
proof (induction pages arbitrary: cursor)
  case Nil
  then show ?case by simp
next
  case (Cons p ps)
  show ?case
  proof (cases ps)
    case Nil
    then show ?thesis using Cons.prems by (simp add: serve_Cons)
  next
    case (Cons q qs)
    then have "fetched_pages (length ps) serve (next_cursor p) (ps @ later) = Some (ps, later)"
      using Cons.IH[of "next_cursor p"] Cons.prems by auto
    moreover have "\<not> is_last p" using Cons.prems Cons by simp
    ultimately show ?thesis by (simp add: serve_Cons)
  qed
qed


lemma paginate_loop_last:
  "fetchPage cursor s = (Inr page, s1) \<Longrightarrow> is_last page \<Longrightarrow>
   paginate_loop fetchPage ndjson cursor acc s = Some (None, take_page ndjson page acc, s1)"
  by (subst paginate_loop.simps) simp

text \<open>
  C6. If the fetch function, its cursors followed from null, hands out a page that passes
  the exit test within finitely many calls, \<^verbatim>\<open>paginateAll\<close> returns in both modes, and in
  non-streaming mode it returns the concatenation of the pages' results in page order,
  with \<^verbatim>\<open>total\<close> its length. At any pass of the loop, a page with \<^verbatim>\<open>has_more = false\<close> ends
  the loop, and so does a page with no cursor, whatever its \<^verbatim>\<open>has_more\<close>.
\<close>

theorem pagination_terminates:
  "(fetched_pages n fetchPage None s = Some (pages, s') \<longrightarrow>
      paginateAll fetchPage False s out =
        Some (Inr (Collected (items_of pages) (length (items_of pages))), out, s') \<and>
      (\<exists>r out'. paginateAll fetchPage True s out = Some (r, out', s'))) \<and>
   (fetchPage cursor s0 = (Inr page, s1) \<and> (\<not> has_more page \<or> next_cursor page = None) \<longrightarrow>
      paginate_loop fetchPage ndjson cursor acc s0 = Some (None, take_page ndjson page acc, s1))"
proof (intro conjI impI)
  assume f: "fetched_pages n fetchPage None s = Some (pages, s')"
  show "paginateAll fetchPage False s out =
      Some (Inr (Collected (items_of pages) (length (items_of pages))), out, s')"
    using paginate_loop_pages[OF f, of False "\<lparr>total = 0, all_items = [], written = out\<rparr>"]
    by (simp add: paginateAll_def)
  show "\<exists>r out'. paginateAll fetchPage True s out = Some (r, out', s')"
    using paginate_loop_pages[OF f, of True "\<lparr>total = 0, all_items = [], written = out\<rparr>"]
    by (simp add: paginateAll_def)
next
  assume "fetchPage cursor s0 = (Inr page, s1) \<and> (\<not> has_more page \<or> next_cursor page = None)"
  then have "fetchPage cursor s0 = (Inr page, s1)" "is_last page"
    by (auto simp: is_last_def no_cursor_def)
  then show "paginate_loop fetchPage ndjson cursor acc s0 = Some (None, take_page ndjson page acc, s1)"
    by (rule paginate_loop_last)
qed

text \<open>
  Three pages, the second with \<^verbatim>\<open>has_more = true\<close> and no cursor: the engine stops there
  and never asks for the third.
\<close>

theorem pagination_terminates_witness:
  "fetched_pages 2 serve None dishonest_pages = Some (take 2 dishonest_pages, drop 2 dishonest_pages) \<and>
   paginateAll serve False dishonest_pages [] = Some (Inr (Collected [1, 2, 3] 3), [], drop 2 dishonest_pages) \<and>
   serve (Some ''a'') (drop 1 dishonest_pages) = (Inr (dishonest_pages ! 1), drop 2 dishonest_pages) \<and>
   has_more (dishonest_pages ! 1) \<and> next_cursor (dishonest_pages ! 1) = None \<and>
   paginate_loop serve False (Some ''a'') \<lparr>total = 2, all_items = [1, 2], written = []\<rparr>
       (drop 1 dishonest_pages) =
     Some (None, \<lparr>total = 3, all_items = [1, 2, 3], written = []\<rparr>, drop 2 dishonest_pages)"
proof -
  have a: "fetched_pages 2 serve None dishonest_pages = Some (take 2 dishonest_pages, drop 2 dishonest_pages)"
    by (simp add: dishonest_pages_def serve_Cons is_last_def no_cursor_def numeral_2_eq_2)
  have b: "serve (Some ''a'') (drop 1 dishonest_pages) = (Inr (dishonest_pages ! 1), drop 2 dishonest_pages) \<and>
      (\<not> has_more (dishonest_pages ! 1) \<or> next_cursor (dishonest_pages ! 1) = None)"
    by (simp add: dishonest_pages_def serve_Cons)
  from pagination_terminates[where n = 2 and fetchPage = serve and s = dishonest_pages
      and pages = "take 2 dishonest_pages" and s' = "drop 2 dishonest_pages" and out = "[]"
      and cursor = "Some ''a''" and ?s0.0 = "drop 1 dishonest_pages" and page = "dishonest_pages ! 1"
      and ?s1.0 = "drop 2 dishonest_pages" and ndjson = False
      and acc = "\<lparr>total = 2, all_items = [1, 2], written = []\<rparr>"] a b
  show ?thesis
    by (simp add: dishonest_pages_def items_of_def take_page_def serve_Cons)
qed

text \<open>
  C7. For the pages that the fetch function hands out, streaming mode writes one item line
  per item, in the order in which non-streaming mode accumulates them, then one summary
  line whose count is the number of items, and returns \<^verbatim>\<open>null\<close>; non-streaming mode
  writes nothing and returns the items and their number.
\<close>

theorem streaming_equivalence:
  assumes "fetched_pages n fetchPage None s = Some (pages, s')"
  shows "paginateAll fetchPage True s out =
      Some (Inr Null, out @ map Item (items_of pages) @ [Summary (length (items_of pages))], s') \<and>
    paginateAll fetchPage False s out =
      Some (Inr (Collected (items_of pages) (length (items_of pages))), out, s')"
  using paginate_loop_pages[OF assms, of True "\<lparr>total = 0, all_items = [], written = out\<rparr>"]
    paginate_loop_pages[OF assms, of False "\<lparr>total = 0, all_items = [], written = out\<rparr>"]
  by (simp add: paginateAll_def)

text \<open>The scenario of the spec: the pages \<^verbatim>\<open>[1,2]\<close> and \<^verbatim>\<open>[3]\<close>.\<close>

theorem streaming_equivalence_witness:
  "fetched_pages 2 serve None two_pages = Some (two_pages, []) \<and>
   paginateAll serve True two_pages [] =
     Some (Inr Null, [Item 1, Item 2, Item 3, Summary 3], []) \<and>
   paginateAll serve False two_pages [] = Some (Inr (Collected [1, 2, 3] 3), [], [])"
proof -
  have a: "fetched_pages 2 serve None two_pages = Some (two_pages, [])"
    by (simp add: two_pages_def serve_Cons is_last_def no_cursor_def numeral_2_eq_2)
  from streaming_equivalence[OF a, of "[]"] a
  show ?thesis by (simp add: two_pages_def items_of_def)
qed


section \<open>Properties of the registry\<close>

lemma expired_not_retained: "expired t op \<Longrightarrow> \<not> retained t op"
  by (auto simp: expired_def retained_def RETENTION_DAYS_def MILLIS_PER_DAY_def
      split: timestamp.splits)

lemma cleanupOps_drops: "expired t r \<Longrightarrow> r \<notin> set (cleanupOps t ops)"
  by (auto simp: cleanupOps_def dest: expired_not_retained)

text \<open>
  C3, as claimed, fails for a read: \<^verbatim>\<open>readOps\<close> returns the file's receipts as they
  are, an expired one included.
\<close>

theorem read_returns_expired_counterexample:
  "\<not> (\<forall>t rg stored ops r.
        content rg = Lines stored \<and> r \<in> set stored \<and> expired t r \<and> readOps rg = Inr ops \<longrightarrow>
        r \<notin> set ops)"
proof
  assume a: "\<forall>t rg stored ops r.
        content rg = Lines stored \<and> r \<in> set stored \<and> expired t r \<and> readOps rg = Inr ops \<longrightarrow>
        r \<notin> set ops"
  let ?r = "upload_receipt COMPLETED 0"
  have "content (registry_of [?r]) = Lines [?r] \<and> ?r \<in> set [?r] \<and> expired (31 * day) ?r \<and>
      readOps (registry_of [?r]) = Inr [?r]"
    by (simp add: registry_of_def readOps_def expired_def upload_receipt_def day_def)
  with a have "?r \<notin> set [?r]" by blast
  then show False by simp
qed

text \<open>
  C3, amended. A receipt of the registry whose \<^verbatim>\<open>updated_at\<close> is more than 30 days before
  the current time is absent from the file after the next successful write (\<^verbatim>\<open>appendOp\<close>
  or \<^verbatim>\<open>updateOp\<close>), and so from every later read, unless it is the very receipt being
  written.
\<close>

theorem retention_on_write:
  assumes "readOps rg = Inr ops"
    and "write_error rg = None"
    and "r \<in> set ops"
    and "expired t r"
    and "r \<noteq> op"
  shows "fst (appendOp t op rg) = Inr () \<and>
    (\<exists>ops'. readOps (snd (appendOp t op rg)) = Inr ops' \<and> r \<notin> set ops') \<and>
    fst (updateOp t op rg) = Inr () \<and>
    (\<exists>ops'. readOps (snd (updateOp t op rg)) = Inr ops' \<and> r \<notin> set ops')"
proof -
  have d: "r \<notin> set (cleanupOps t ops)" using assms(4) by (rule cleanupOps_drops)
  have a: "appendOp t op rg = (Inr (), rg\<lparr>content := Lines (cleanupOps t ops @ [op])\<rparr>)"
    using assms(1,2) by (simp add: appendOp_def writeOps_def)
  have u: "updateOp t op rg =
      (Inr (), rg\<lparr>content := Lines (map (\<lambda>existing. if op_id existing = op_id op then op else existing)
         (cleanupOps t ops))\<rparr>)"
    using assms(1,2) by (simp add: updateOp_def writeOps_def)
  have a': "r \<notin> set (cleanupOps t ops @ [op])" using d assms(5) by simp
  have u': "r \<notin> set (map (\<lambda>existing. if op_id existing = op_id op then op else existing)
         (cleanupOps t ops))"
    using d assms(5) by auto
  show ?thesis using a u a' u' by (simp add: readOps_def)
qed

text \<open>A receipt 31 days old is gone after an append and after an update.\<close>

theorem retention_on_write_witness:
  "readOps (registry_of [upload_receipt COMPLETED 0]) = Inr [upload_receipt COMPLETED 0] \<and>
   expired (31 * day) (upload_receipt COMPLETED 0) \<and>
   appendOp (31 * day) (upload_receipt PENDING (31 * day)) (registry_of [upload_receipt COMPLETED 0]) =
     (Inr (), registry_of [upload_receipt PENDING (31 * day)]) \<and>
   updateOp (31 * day) (upload_receipt PENDING (31 * day)) (registry_of [upload_receipt COMPLETED 0]) =
     (Inr (), registry_of [])"
proof -
  let ?r = "upload_receipt COMPLETED 0"
  let ?n = "upload_receipt PENDING (31 * day)"
  have a: "readOps (registry_of [?r]) = Inr [?r]" by (simp add: registry_of_def readOps_def)
  have b: "write_error (registry_of [?r]) = None" by (simp add: registry_of_def)
  have c: "?r \<in> set [?r]" by simp
  have d: "expired (31 * day) ?r" by (simp add: expired_def upload_receipt_def day_def)
  have e: "?r \<noteq> ?n" by (simp add: upload_receipt_def)
  from retention_on_write[OF a b c d e] a d
  show ?thesis
    by (auto simp: registry_of_def appendOp_def updateOp_def writeOps_def readOps_def
        cleanupOps_def dest: expired_not_retained)
qed

text \<open>
  C4, as claimed, fails: the patch of the wait command, \<^verbatim>\<open>{ metadata: { poll: ... } }\<close>,
  does not mention the key \<^verbatim>\<open>attempt\<close>, and the key is gone afterwards.
\<close>

theorem touch_replaces_metadata_counterexample:
  "\<not> (\<forall>t op patch k.
        k \<in> set (metadata_keys op) \<and> k \<notin> set (patch_keys patch) \<longrightarrow>
        k \<in> set (metadata_keys (touchOp t op patch)))"
proof
  assume a: "\<forall>t op patch k.
        k \<in> set (metadata_keys op) \<and> k \<notin> set (patch_keys patch) \<longrightarrow>
        k \<in> set (metadata_keys (touchOp t op patch))"
  let ?op = "upload_receipt IN_PROGRESS 0"
  let ?patch = "poll_patch (JObj [(''status'', JStr ''pending'')])"
  have "''attempt'' \<in> set (metadata_keys ?op) \<and> ''attempt'' \<notin> set (patch_keys ?patch)"
    by (simp add: metadata_keys_def patch_keys_def upload_receipt_def poll_patch_def no_patch_def)
  with a have "''attempt'' \<in> set (metadata_keys (touchOp 5 ?op ?patch))" by blast
  then show False
    by (simp add: metadata_keys_def touchOp_def overlay_def poll_patch_def no_patch_def)
qed

lemma validatePath_upload: "validatePath ''/file_uploads/f1'' = None"
  by code_simp

text \<open>
  C4, amended. \<^verbatim>\<open>touchOp\<close> merges at the level of the receipt's properties: each
  property (\<^verbatim>\<open>op_id\<close>, \<^verbatim>\<open>type\<close>, \<^verbatim>\<open>status\<close>, \<^verbatim>\<open>resource_id\<close>, \<^verbatim>\<open>resource_type\<close>,
  \<^verbatim>\<open>created_at\<close>, \<^verbatim>\<open>metadata\<close>, \<^verbatim>\<open>poll\<close>, \<^verbatim>\<open>error\<close>) is kept when the patch does not
  have it and is the patch's value when it has, and \<^verbatim>\<open>updated_at\<close> is set to the current
  time. The metadata map is one such property: a patch that has \<^verbatim>\<open>metadata\<close> replaces the
  map as a whole. So does the wait command: after a successful poll it writes to the
  registry the receipt whose metadata map has the one key \<^verbatim>\<open>poll\<close>.
\<close>

theorem touchOp_shallow_merge:
  "op_id (touchOp t op patch) = (case p_op_id patch of None \<Rightarrow> op_id op | Some v \<Rightarrow> v) \<and>
   op_type (touchOp t op patch) = (case p_op_type patch of None \<Rightarrow> op_type op | Some v \<Rightarrow> v) \<and>
   status (touchOp t op patch) = (case p_status patch of None \<Rightarrow> status op | Some v \<Rightarrow> v) \<and>
   resource_id (touchOp t op patch) =
     (case p_resource_id patch of None \<Rightarrow> resource_id op | Some v \<Rightarrow> v) \<and>
   resource_type (touchOp t op patch) =
     (case p_resource_type patch of None \<Rightarrow> resource_type op | Some v \<Rightarrow> v) \<and>
   created_at (touchOp t op patch) =
     (case p_created_at patch of None \<Rightarrow> created_at op | Some v \<Rightarrow> v) \<and>
   updated_at (touchOp t op patch) = Instant t \<and>
   metadata (touchOp t op patch) = (case p_metadata patch of None \<Rightarrow> metadata op | Some m \<Rightarrow> m) \<and>
   poll (touchOp t op patch) = (case p_poll patch of None \<Rightarrow> poll op | Some v \<Rightarrow> v) \<and>
   error (touchOp t op patch) = (case p_error patch of None \<Rightarrow> error op | Some v \<Rightarrow> v) \<and>
   (p_metadata patch = None \<longrightarrow> metadata (touchOp t op patch) = metadata op) \<and>
   (p_metadata patch = Some m \<longrightarrow> metadata (touchOp t op patch) = m) \<and>
   (p_status patch = None \<longrightarrow> status (touchOp t op patch) = status op) \<and>
   metadata_keys (touchOp t op (poll_patch d)) = [''poll''] \<and>
   (request up (poll_options cfg p) n = (Inr response, n') \<and> readOps r = Inr ops \<and>
    write_error r = None \<longrightarrow>
      poll_step up cfg t op p r n =
        (None,
         r\<lparr>content := Lines
           (map (\<lambda>existing. if op_id existing = op_id op
                   then touchOp t op (poll_patch (resp_data response)) else existing)
              (cleanupOps t ops))\<rparr>,
         n') \<and>
      metadata (touchOp t op (poll_patch (resp_data response))) =
        Some [(''poll'', resp_data response)])"
proof -
  have fields: "touchOp t op patch =
      \<lparr>op_id = overlay (op_id op) (p_op_id patch),
       op_type = overlay (op_type op) (p_op_type patch),
       status = overlay (status op) (p_status patch),
       resource_id = overlay (resource_id op) (p_resource_id patch),
       resource_type = overlay (resource_type op) (p_resource_type patch),
       created_at = overlay (created_at op) (p_created_at patch),
       updated_at = Instant t,
       metadata = overlay (metadata op) (p_metadata patch),
       poll = overlay (poll op) (p_poll patch),
       error = overlay (error op) (p_error patch)\<rparr>"
    by (simp add: touchOp_def)
  have id: "\<And>d. op_id (touchOp t op (poll_patch d)) = op_id op"
    by (simp add: touchOp_def overlay_def poll_patch_def no_patch_def)
  have step: "request up (poll_options cfg p) n = (Inr response, n') \<and> readOps r = Inr ops \<and>
      write_error r = None \<longrightarrow>
      poll_step up cfg t op p r n =
        (None,
         r\<lparr>content := Lines
           (map (\<lambda>existing. if op_id existing = op_id op
                   then touchOp t op (poll_patch (resp_data response)) else existing)
              (cleanupOps t ops))\<rparr>,
         n')"
    by (simp add: poll_step_def updateOp_def writeOps_def id poll_patch_def[symmetric])
  have md: "\<And>d. metadata (touchOp t op (poll_patch d)) = Some [(''poll'', d)]"
    by (simp add: touchOp_def overlay_def poll_patch_def no_patch_def)
  have keys: "metadata_keys (touchOp t op (poll_patch d)) = [''poll'']"
    by (simp add: metadata_keys_def md)
  show ?thesis
    using step keys md
    by (simp add: fields overlay_def)
qed

text \<open>
  A pending upload with the metadata key \<^verbatim>\<open>attempt\<close>: the empty patch keeps every property
  but the time of update; one poll step of the wait command writes it with the metadata
  key \<^verbatim>\<open>poll\<close> alone.
\<close>

theorem touchOp_shallow_merge_witness:
  "request upstream_pending
       (poll_options cfg0 \<lparr>poll_method = ''GET'', poll_path = ''/file_uploads/f1''\<rparr>) net0 =
     (Inr \<lparr>resp_status = 200, resp_data = JObj [(''status'', JStr ''pending'')],
        resp_retry_after = None\<rparr>, \<lparr>calls = 1, sleeps = []\<rparr>) \<and>
   readOps (registry_of [upload_receipt IN_PROGRESS 0]) = Inr [upload_receipt IN_PROGRESS 0] \<and>
   write_error (registry_of [upload_receipt IN_PROGRESS 0]) = None \<and>
   poll_step upstream_pending cfg0 5 (upload_receipt IN_PROGRESS 0)
       \<lparr>poll_method = ''GET'', poll_path = ''/file_uploads/f1''\<rparr>
       (registry_of [upload_receipt IN_PROGRESS 0]) net0 =
     (None,
      registry_of
        [(upload_receipt IN_PROGRESS 5)\<lparr>metadata :=
           Some [(''poll'', JObj [(''status'', JStr ''pending'')])]\<rparr>],
      \<lparr>calls = 1, sleeps = []\<rparr>) \<and>
   p_metadata no_patch = None \<and> p_status no_patch = None \<and>
   touchOp 5 (upload_receipt IN_PROGRESS 0) no_patch = upload_receipt IN_PROGRESS 5 \<and>
   p_metadata (poll_patch JNull) = Some (Some [(''poll'', JNull)]) \<and>
   metadata (touchOp 5 (upload_receipt IN_PROGRESS 0) (poll_patch JNull)) = Some [(''poll'', JNull)] \<and>
   metadata_keys (upload_receipt IN_PROGRESS 0) = [''attempt''] \<and>
   metadata_keys (touchOp 5 (upload_receipt IN_PROGRESS 0) (poll_patch JNull)) = [''poll'']"
proof -
  let ?op = "upload_receipt IN_PROGRESS 0"
  let ?p = "\<lparr>poll_method = ''GET'', poll_path = ''/file_uploads/f1''\<rparr>"
  let ?resp = "\<lparr>resp_status = 200, resp_data = JObj [(''status'', JStr ''pending'')],
        resp_retry_after = None\<rparr>"
  have a: "request upstream_pending (poll_options cfg0 ?p) net0 = (Inr ?resp, \<lparr>calls = 1, sleeps = []\<rparr>)"
    by (simp add: request_def poll_options_def validatePath_upload cfg0_def net0_def
        request_loop.simps[of _ _ 0] attempt_body_def doFetch_def upstream_pending_def Let_def)
  have b: "readOps (registry_of [?op]) = Inr [?op]" by (simp add: registry_of_def readOps_def)
  have c: "write_error (registry_of [?op]) = None" by (simp add: registry_of_def)
  have d: "p_metadata no_patch = None \<and> p_status no_patch = None" by (simp add: no_patch_def)
  have e: "p_metadata (poll_patch JNull) = Some (Some [(''poll'', JNull)])"
    by (simp add: poll_patch_def no_patch_def)
  have f: "metadata_keys ?op = [''attempt'']" by (simp add: metadata_keys_def upload_receipt_def)
  have g: "cleanupOps 5 [?op] = [?op]"
    by (simp add: cleanupOps_def retained_def upload_receipt_def RETENTION_DAYS_def MILLIS_PER_DAY_def)
  note w1 = touchOp_shallow_merge[where t = 5 and op = ?op and patch = no_patch
      and m = "Some [(''poll'', JNull)]" and d = JNull and up = upstream_pending and cfg = cfg0
      and p = ?p and n = net0 and response = ?resp and n' = "\<lparr>calls = 1, sleeps = []\<rparr>"
      and r = "registry_of [?op]" and ops = "[?op]"]
  note w2 = touchOp_shallow_merge[where t = 5 and op = ?op and patch = "poll_patch JNull"
      and m = "Some [(''poll'', JNull)]" and d = JNull and up = upstream_pending and cfg = cfg0
      and p = ?p and n = net0 and response = ?resp and n' = "\<lparr>calls = 1, sleeps = []\<rparr>"
      and r = "registry_of [?op]" and ops = "[?op]"]
  have h: "touchOp 5 ?op no_patch = upload_receipt IN_PROGRESS 5"
    by (simp add: touchOp_def overlay_def no_patch_def upload_receipt_def)
  have i: "touchOp 5 ?op (poll_patch (JObj [(''status'', JStr ''pending'')])) =
      (upload_receipt IN_PROGRESS 5)\<lparr>metadata :=
           Some [(''poll'', JObj [(''status'', JStr ''pending'')])]\<rparr>"
    by (simp add: touchOp_def overlay_def poll_patch_def no_patch_def upload_receipt_def)
  from w1 a b c g i
  have j: "poll_step upstream_pending cfg0 5 ?op ?p (registry_of [?op]) net0 =
      (None,
       registry_of
         [(upload_receipt IN_PROGRESS 5)\<lparr>metadata :=
            Some [(''poll'', JObj [(''status'', JStr ''pending'')])]\<rparr>],
       \<lparr>calls = 1, sleeps = []\<rparr>)"
    by (simp add: registry_of_def)
  from w2 e have k: "metadata (touchOp 5 ?op (poll_patch JNull)) = Some [(''poll'', JNull)] \<and>
      metadata_keys (touchOp 5 ?op (poll_patch JNull)) = [''poll'']"
    by simp
  from a b c d e f h j k show ?thesis by simp
qed


section \<open>Properties of the wait command\<close>

declare wait_loop.simps [simp del]

text \<open>
  C9. When the receipt that the wait command finds under the given id is \<^verbatim>\<open>COMPLETED\<close> or
  \<^verbatim>\<open>FAILED\<close>, the command leaves the registry, the clock and the network as they are (no
  poll, no update), at any pass of its loop, and returns that receipt as it is whenever
  the deadline has not passed.
\<close>

theorem wait_terminal_untouched:
  assumes "readOps (reg w) = Inr opsList"
    and "find (\<lambda>item. op_id item = ident) opsList = Some found"
    and "status found = COMPLETED \<or> status found = FAILED"
  shows "snd (wait_loop up cfg ident deadline w) = w \<and>
    (clock w < deadline \<longrightarrow> fst (wait_loop up cfg ident deadline w) = Inr found) \<and>
    (parseId opId flagId = ident \<and> ident \<noteq> [] \<longrightarrow>
       snd (ops_wait up cfg opId flagId timeout w) = w \<and>
       (0 < timeout \<longrightarrow> fst (ops_wait up cfg opId flagId timeout w) = Inr found))"
proof -
  have l: "\<And>d. wait_loop up cfg ident d w =
      (if clock w < d then (Inr found, w)
       else (Inl (Cli (new_CliError TIMEOUT ''Op wait timed out'' (Some True)
           (Some ''Increase --timeout'') (Some (JObj [(''op_id'', JStr ident)])))), w))"
    using assms by (subst wait_loop.simps) auto
  show ?thesis by (auto simp: l ops_wait_def Let_def)
qed

text \<open>Waiting 60 seconds for a completed receipt returns it at once.\<close>

theorem wait_terminal_untouched_witness:
  "readOps (reg (world_of [upload_receipt COMPLETED 7])) = Inr [upload_receipt COMPLETED 7] \<and>
   find (\<lambda>item. op_id item = ''op-1'') [upload_receipt COMPLETED 7] = Some (upload_receipt COMPLETED 7) \<and>
   status (upload_receipt COMPLETED 7) = COMPLETED \<and>
   parseId (Some ''op-1'') None = ''op-1'' \<and>
   ops_wait upstream_404 cfg0 (Some ''op-1'') None 60 (world_of [upload_receipt COMPLETED 7]) =
     (Inr (upload_receipt COMPLETED 7), world_of [upload_receipt COMPLETED 7])"
proof -
  let ?r = "upload_receipt COMPLETED 7"
  have a: "readOps (reg (world_of [?r])) = Inr [?r]"
    by (simp add: world_of_def registry_of_def readOps_def)
  have b: "find (\<lambda>item. op_id item = ''op-1'') [?r] = Some ?r"
    by (simp add: upload_receipt_def)
  have c: "status ?r = COMPLETED \<or> status ?r = FAILED" by (simp add: upload_receipt_def)
  have d: "parseId (Some ''op-1'') None = ''op-1''" by (simp add: parseId_def)
  from wait_terminal_untouched[OF a b c, of upstream_404 cfg0 60000 "Some ''op-1''" None 60] a b c d
  show ?thesis
    by (simp add: prod_eq_iff upload_receipt_def)
qed


text \<open>
  An update rewrites only the entries that carry the id of the receipt written: every
  receipt of the file after the update is that receipt or an unchanged receipt of the file
  before, with another id.
\<close>

lemma updateOp_only_replaces:
  assumes "readOps rg = Inr ops"
    and "updateOp t op rg = (Inr u, rg')"
    and "readOps rg' = Inr ops'"
    and "r \<in> set ops'"
  shows "r = op \<or> (r \<in> set ops \<and> op_id r \<noteq> op_id op)"
proof -
  from assms(1,2) have "rg' = rg\<lparr>content := Lines
      (map (\<lambda>existing. if op_id existing = op_id op then op else existing) (cleanupOps t ops))\<rparr>"
    by (auto simp: updateOp_def writeOps_def split: option.splits)
  with assms(3) have "ops' =
      map (\<lambda>existing. if op_id existing = op_id op then op else existing) (cleanupOps t ops)"
    by (simp add: readOps_def)
  with assms(4) show ?thesis by (auto simp: cleanupOps_def split: if_splits)
qed

text \<open>
  The other way into a terminal state: when the poll of a pending receipt fails, the
  command marks the receipt \<^verbatim>\<open>FAILED\<close>, writes it and returns it, without another pass.
\<close>

lemma wait_poll_failure:
  assumes "clock w < deadline"
    and "readOps (reg w) = Inr opsList"
    and "find (\<lambda>item. op_id item = ident) opsList = Some found"
    and "status found \<noteq> COMPLETED" "status found \<noteq> FAILED"
    and "poll found = Some p"
    and "request up (poll_options cfg p) (network w) = (Inl e, n')"
    and "write_error (reg w) = None"
  shows "\<exists>failed ops'. wait_loop up cfg ident deadline w =
      (Inr failed, w\<lparr>reg := (reg w)\<lparr>content := Lines ops'\<rparr>, network := n'\<rparr>) \<and>
    status failed = FAILED \<and>
    failed = touchOp (clock w) found
      (no_patch\<lparr>p_status := Some FAILED,
         p_error := Some (Some \<lparr>error_code = ''POLL_FAILED'',
           error_message = poll_failure_message e\<rparr>)\<rparr>)"
  using assms
  by (subst wait_loop.simps)
    (auto simp: poll_step_def updateOp_def writeOps_def touchOp_def overlay_def no_patch_def
      Let_def)


section \<open>Properties of the harness\<close>

lemma loadConfigFile_broken:
  "config_broken w \<Longrightarrow>
   \<exists>e w'. loadConfigFile w = (Inl e, w') \<and> stdout w' = stdout w \<and> cfg_file w' = cfg_file w"
  by (auto simp: config_broken_def loadConfigFile_def Let_def
      split: config_file.splits config_text.splits)

lemma resolveConfig_broken:
  "config_broken w \<Longrightarrow>
   \<exists>e w'. resolveConfig K options t w = (Inl e, w') \<and> stdout w' = stdout w \<and>
     cfg_file w' = cfg_file w"
  using loadConfigFile_broken[of w] by (auto simp: resolveConfig_def)

lemma resolveContext_broken:
  assumes "config_broken w"
  shows "\<exists>e w'. resolveContext K command options w = (Inl e, w') \<and> stdout w' = stdout w \<and>
    cfg_file w' = cfg_file w"
proof (cases "is_true (opt_tokenStdin options)")
  case True
  have "config_broken (w\<lparr>stdin := []\<rparr>)" using assms by (simp add: config_broken_def)
  from resolveConfig_broken[OF this, of K options
      "if trim (stdin w) = [] then None else Some (trim (stdin w))"]
  show ?thesis using True by (auto simp: resolveContext_def readStdin_def)
next
  case False
  from resolveConfig_broken[OF assms, of K options None]
  show ?thesis using False by (auto simp: resolveContext_def)
qed

lemma handleError_broken:
  assumes "config_broken w"
  shows "\<exists>e w'. handleError K command err start options w = (Rejected e, w') \<and>
    stdout w' = stdout w"
  using resolveContext_broken[OF assms, of K command options]
  by (auto simp: handleError_def)

text \<open>
  C1. When the configuration file cannot be loaded, \<^verbatim>\<open>resolveContext\<close> throws inside
  \<^verbatim>\<open>runAction\<close> and throws again inside \<^verbatim>\<open>handleError\<close>, which resolves the context anew
  before it builds the envelope: the invocation ends in a rejection and nothing is written
  to the primary channel; the process then exits with code 125 and one line on the
  diagnostic channel.
\<close>

theorem broken_config_no_envelope:
  assumes "config_broken w"
  shows "\<exists>e w'. runAction K command options handler inputs w = (Rejected e, w') \<and>
    stdout w' = stdout w \<and>
    fst (run_catch (Rejected e, w')) = 125 \<and>
    stdout (snd (run_catch (Rejected e, w'))) = stdout w"
proof -
  have "\<exists>e w'. runAction K command options handler inputs w = (Rejected e, w') \<and>
      stdout w' = stdout w"
  proof (cases "ensureTokenStdinSafe options inputs")
    case (Some e)
    then show ?thesis using handleError_broken[OF assms, of K command e "now w" options]
      by (simp add: runAction_def Let_def)
  next
    case None
    from resolveContext_broken[OF assms, of K command options]
    obtain e w1 where r: "resolveContext K command options w = (Inl e, w1)" "stdout w1 = stdout w"
      "cfg_file w1 = cfg_file w"
      by blast
    have "config_broken w1" using assms r(3) by (simp add: config_broken_def)
    from handleError_broken[OF this, of K command e "now w" options] r None
    show ?thesis by (auto simp: runAction_def Let_def)
  qed
  then show ?thesis by (auto simp: run_catch_def)
qed

text \<open>A configuration file that is not JSON, and the command \<^verbatim>\<open>users me\<close>.\<close>

theorem broken_config_no_envelope_witness:
  "config_broken (process_with (ConfigPresent False (Malformed ''Unexpected end of JSON input''))) \<and>
   (\<exists>w'. runAction K0 ''users me'' no_options users_me []
        (process_with (ConfigPresent False (Malformed ''Unexpected end of JSON input''))) =
      (Rejected (JsError ''SyntaxError'' ''Unexpected end of JSON input''), w') \<and>
      stdout w' = [] \<and>
      fst (run_catch (Rejected (JsError ''SyntaxError'' ''Unexpected end of JSON input''), w')) = 125)"
proof -
  let ?w = "process_with (ConfigPresent False (Malformed ''Unexpected end of JSON input''))"
  have a: "config_broken ?w" by (simp add: config_broken_def process_with_def)
  from broken_config_no_envelope[OF a, of K0 "''users me''" no_options users_me "[]"]
  obtain e w' where r: "runAction K0 ''users me'' no_options users_me [] ?w = (Rejected e, w')"
    "stdout w' = stdout ?w" "fst (run_catch (Rejected e, w')) = 125" by blast
  have "fst (runAction K0 ''users me'' no_options users_me [] ?w) =
      Rejected (JsError ''SyntaxError'' ''Unexpected end of JSON input'')"
    by (simp add: runAction_def handleError_def resolveContext_def resolveConfig_def
        loadConfigFile_def ensureTokenStdinSafe_def no_options_def process_with_def is_true_def
        Let_def)
  with r have "e = JsError ''SyntaxError'' ''Unexpected end of JSON input''" by simp
  with r a show ?thesis by (simp add: process_with_def)
qed

text \<open>
  A second way to miss the one envelope: the success envelope is printed, the copy to an
  unwritable output file fails, and the error handler prints an error envelope before its
  own copy fails too.
\<close>

lemma unwritable_output_file_two_envelopes:
  "\<exists>e w'. runAction K0 ''users me'' (no_options\<lparr>opt_outputFile := Some ''/proc/out.json''\<rparr>)
       users_me [] (process_with NoConfigFile) = (Rejected e, w') \<and>
     length (envelopes (stdout w')) = 2"
  by (simp add: runAction_def handleError_def resolveContext_def resolveConfig_def
      loadConfigFile_def ensureTokenStdinSafe_def no_options_def process_with_def is_true_def
      emitOutput_def users_me_def envelopes_def orElse_def optional_def Let_def)

end
